theory Spec2Isabelle
  imports Main "HOL-Library.Word" "HOL-Library.Sublist"
begin

section \<open>Python values used by the program\<close>

type_synonym bytes = "8 word list"

text \<open>
  Python's \<^verbatim>\<open>x or d\<close> on an optional string: \<^verbatim>\<open>None\<close> and the empty string are
  both falsy.
\<close>

definition py_or :: "string option \<Rightarrow> string \<Rightarrow> string" where
  "py_or x d = (case x of None \<Rightarrow> d | Some s \<Rightarrow> if s = [] then d else s)"

text \<open>
  \<^verbatim>\<open>str.lower()\<close>, on the ASCII letters. A \<^typ>\<open>string\<close> is a list of 8-bit characters;
  the letters of the allowed extensions and MIME types are all ASCII.
\<close>

definition lower_char :: "char \<Rightarrow> char" where
  "lower_char c =
     (let n = (of_char c :: nat) in if 65 \<le> n \<and> n \<le> 90 then char_of (n + 32) else c)"

definition lower :: "string \<Rightarrow> string" where
  "lower s = map lower_char s"

text \<open>
  \<^verbatim>\<open>pathlib.Path(p).suffix\<close> for POSIX paths: the path is split at \<^verbatim>\<open>/\<close>, empty and
  \<^verbatim>\<open>.\<close> components are dropped, the name is the last component left, and the suffix
  starts at the last dot of the name unless that dot is the first or the last character
  (\<^verbatim>\<open>i = name.rfind('.'); 0 < i < len(name) - 1\<close>).
\<close>

fun split_slash :: "string \<Rightarrow> string list" where
  "split_slash [] = [] # []"
| "split_slash (c # cs) =
     (if c = CHR ''/'' then [] # split_slash cs
      else (case split_slash cs of [] \<Rightarrow> [c] # [] | p # ps \<Rightarrow> (c # p) # ps))"

definition path_name :: "string \<Rightarrow> string" where
  "path_name p =
     (case filter (\<lambda>c. c \<noteq> [] \<and> c \<noteq> ''.'') (split_slash p) of
        [] \<Rightarrow> []
      | c # cs \<Rightarrow> last (c # cs))"

definition path_suffix :: "string \<Rightarrow> string" where
  "path_suffix p =
     (let name = path_name p;
          rest = rev (takeWhile (\<lambda>c. c \<noteq> CHR ''.'') (rev name))
      in if CHR ''.'' \<notin> set name then []
         else if 0 < length name - length rest - 1 \<and> rest \<noteq> [] then CHR ''.'' # rest
         else [])"

section \<open>The validator: \<^verbatim>\<open>app/utils/validator.py\<close>\<close>

definition ALLOWED_EXTENSIONS :: "string set" where
  "ALLOWED_EXTENSIONS = {''.jpg'', ''.jpeg'', ''.png''}"

definition ALLOWED_MIME :: "string set" where
  "ALLOWED_MIME = {''image/jpeg'', ''image/png''}"

definition JPEG_SIGNATURE :: bytes where
  "JPEG_SIGNATURE = [0xFF, 0xD8, 0xFF]"

definition PNG_SIGNATURE :: bytes where
  "PNG_SIGNATURE = [0x89, 0x50, 0x4E, 0x47, 0x0D, 0x0A, 0x1A, 0x0A]"

definition SIGNATURES :: "string \<rightharpoonup> bytes list" where
  "SIGNATURES = [''image/jpeg'' \<mapsto> [JPEG_SIGNATURE], ''image/png'' \<mapsto> [PNG_SIGNATURE]]"

definition get_ext :: "string \<Rightarrow> string" where
  "get_ext filename = lower (path_suffix filename)"

definition match_signature :: "string \<Rightarrow> bytes \<Rightarrow> bool" where
  "match_signature mime data =
     list_ex (\<lambda>signature. prefix signature data)
       (case SIGNATURES mime of None \<Rightarrow> [] | Some sigs \<Rightarrow> sigs)"

text \<open>
  The exceptions of the program. \<^verbatim>\<open>HTTPException(status, detail)\<close> is what the validator
  and the upload handler raise themselves. The image decoder (PIL) is a library outside
  the repository; of its exceptions the source names \<^verbatim>\<open>UnidentifiedImageError\<close> and
  \<^verbatim>\<open>OSError\<close>. PIL raises others as well: \<^verbatim>\<open>verify()\<close> raises a \<^verbatim>\<open>SyntaxError\<close> on a PNG
  chunk whose checksum is wrong, and \<^verbatim>\<open>Image.open\<close> raises a \<^verbatim>\<open>DecompressionBombError\<close> on a
  header that declares more than twice \<^verbatim>\<open>Image.MAX_IMAGE_PIXELS\<close> pixels; neither is a
  subclass of the two named, so these, and an exception of any other class, pass through
  the handlers of \<^verbatim>\<open>pil_validate\<close> unchanged. \<open>Uncaught e\<close> is an exception of class \<open>e\<close> that
  no handler of the program catches; \<^verbatim>\<open>OSError\<close> is also what \<^verbatim>\<open>Path.unlink\<close> raises when it
  fails. \<^verbatim>\<open>IntegrityError\<close> is sqlite's primary-key violation.
\<close>

datatype pil_error =
    UnidentifiedImageError
  | OSError
  | SyntaxError
  | DecompressionBombError
  | OtherError

datatype exn =
    HTTPException nat string
  | Uncaught pil_error
  | IntegrityError

text \<open>
  What the source reads of an opened image: \<^verbatim>\<open>img.size\<close>, \<^verbatim>\<open>img.format\<close>, and the outcome
  of \<^verbatim>\<open>img.verify()\<close> (\<open>None\<close> when it returns, the exception when it raises). The
  decoder itself, \<^verbatim>\<open>Image.open\<close>, is a parameter of the model: it either raises or
  returns the image read from the header.
\<close>

record pil_image =
  img_size :: "int \<times> int"
  img_format :: string
  img_verify :: "pil_error option"

type_synonym decoder = "bytes \<Rightarrow> pil_error + pil_image"

text \<open>The two \<^verbatim>\<open>except\<close> clauses of \<^verbatim>\<open>pil_validate\<close>, applied to a decoder exception.\<close>

definition pil_handler :: "pil_error \<Rightarrow> exn" where
  "pil_handler e =
     (if e = UnidentifiedImageError \<or> e = OSError
      then HTTPException 400 ''Invalid or corrupted image''
      else Uncaught e)"

definition pil_validate :: "decoder \<Rightarrow> bytes \<Rightarrow> int \<Rightarrow> exn + (int \<times> int \<times> string)" where
  "pil_validate image_open data max_pixels =
     (case image_open data of
        Inl e \<Rightarrow> Inl (pil_handler e)
      | Inr img \<Rightarrow>
          (case img_size img of (w, h) \<Rightarrow>
             if w * h > max_pixels then Inr (0, 0, '''')
             else (case img_verify img of
                     Some e \<Rightarrow> Inl (pil_handler e)
                   | None \<Rightarrow> Inr (w, h, lower (img_format img)))))"

record ValidatedUpload =
  ext :: string
  mime :: string
  bytes :: bytes
  sha256 :: string
  width :: int
  height :: int
  format :: string

text \<open>
  The uploaded file as the validator reads it: \<^verbatim>\<open>file.filename\<close>, \<^verbatim>\<open>file.content_type\<close>
  (both optional) and the result of \<^verbatim>\<open>file.read()\<close>.
\<close>

record UploadFile =
  filename :: "string option"
  content_type :: "string option"
  content :: bytes

text \<open>
  \<^verbatim>\<open>hashlib.sha256(data).hexdigest()\<close> is a library function; the model takes it as the
  parameter \<open>hexdigest\<close>.
\<close>

definition validate ::
  "(bytes \<Rightarrow> string) \<Rightarrow> decoder \<Rightarrow> UploadFile \<Rightarrow> exn + ValidatedUpload" where
  "validate hexdigest image_open file =
     (let extension = get_ext (py_or (filename file) '''') in
      if extension \<notin> ALLOWED_EXTENSIONS
      then Inl (HTTPException 400 (''Bad Extension '' @ py_or (Some extension) ''none''))
      else
        let mime = lower (py_or (content_type file) '''') in
        if mime \<notin> ALLOWED_MIME
        then Inl (HTTPException 400 (''Bad MIME type: '' @ py_or (Some mime) ''(none)''))
        else
          let data = content file in
          if data = [] then Inl (HTTPException 400 ''Empty upload'')
          else if \<not> match_signature mime data
          then Inl (HTTPException 400 ''File bytes do not match image type'')
          else
            (case pil_validate image_open data 50000000 of
               Inl e \<Rightarrow> Inl e
             | Inr (w, h, fmt) \<Rightarrow>
                 Inr \<lparr>ext = extension, mime = mime, bytes = data,
                      sha256 = hexdigest data,
                      width = w, height = h, format = fmt\<rparr>))"

text \<open>
  The specification's names for the five \<^verbatim>\<open>raise HTTPException(400, ...)\<close> sites of the
  validator, read off the status code and the detail string.
\<close>

datatype rejection = BadExtension | BadMimeType | EmptyUpload | SignatureMismatch | CorruptImage

definition rejection_of :: "exn \<Rightarrow> rejection option" where
  "rejection_of e =
     (case e of
        HTTPException code detail \<Rightarrow>
          if code \<noteq> 400 then None
          else if prefix ''Bad Extension '' detail then Some BadExtension
          else if prefix ''Bad MIME type: '' detail then Some BadMimeType
          else if detail = ''Empty upload'' then Some EmptyUpload
          else if detail = ''File bytes do not match image type'' then Some SignatureMismatch
          else if detail = ''Invalid or corrupted image'' then Some CorruptImage
          else None
      | Uncaught x \<Rightarrow> None
      | IntegrityError \<Rightarrow> None)"

definition rejected_as :: "exn + ValidatedUpload \<Rightarrow> rejection option" where
  "rejected_as r = (case r of Inl e \<Rightarrow> rejection_of e | Inr v \<Rightarrow> None)"

text \<open>
  The decoder's contract as \<^verbatim>\<open>pil_validate\<close> relies on it: on these bytes, what
  \<^verbatim>\<open>Image.open\<close> or \<^verbatim>\<open>verify\<close> raise, if anything, is an \<^verbatim>\<open>UnidentifiedImageError\<close> or an
  \<^verbatim>\<open>OSError\<close>.
\<close>

definition named_error :: "pil_error \<Rightarrow> bool" where
  "named_error e \<longleftrightarrow> e = UnidentifiedImageError \<or> e = OSError"

definition decode_errors_only :: "decoder \<Rightarrow> bytes \<Rightarrow> bool" where
  "decode_errors_only image_open data =
     (case image_open data of
        Inl e \<Rightarrow> named_error e
      | Inr img \<Rightarrow> (case img_verify img of None \<Rightarrow> True | Some e \<Rightarrow> named_error e))"

section \<open>The ledger and the queue: \<^verbatim>\<open>app/main.py\<close>\<close>

text \<open>
  Timestamps (\<^verbatim>\<open>datetime('now')\<close>, \<^verbatim>\<open>datetime.now(timezone.utc)\<close>) are seconds on one
  clock. A table is the list of its rows in insertion order; the primary key of each
  table is its first column.
\<close>

type_synonym timestamp = int

record metadata_row =
  m_sha256 :: string
  m_width :: int
  m_height :: int
  m_format :: string
  m_size_bytes :: nat
  m_first_upload :: timestamp
  m_exif_json :: "string option"
  m_caption :: "string option"

record images_row =
  i_image_id :: string
  i_original_name :: string
  i_processed_at :: timestamp
  i_image_path :: "string option"
  i_metadata_sha256 :: "string option"
  i_error :: "string option"

text \<open>The schema's comment on \<^verbatim>\<open>stats.status\<close>: \<^verbatim>\<open>1 = success, 0 = failed\<close>.\<close>

record stats_row =
  s_image_id :: string
  s_start_time :: timestamp
  s_end_time :: "timestamp option"
  s_status :: int

datatype job =
    Thumbnail_job string string
  | Exif_job string string
  | Caption_job string string string

text \<open>
  The queue collaborator: the jobs enqueued so far, and how many more \<^verbatim>\<open>enqueue\<close> calls
  the connection takes before it raises (\<open>None\<close>: it never raises).
\<close>

record rq =
  jobs :: "job list"
  accepts :: "nat option"

record system =
  metadata :: "metadata_row list"
  images :: "images_row list"
  stats :: "stats_row list"
  queue :: rq
  files :: "string \<rightharpoonup> bytes"
  log :: "string list"

definition MEDIA_DIR :: string where
  "MEDIA_DIR = ''media''"

text \<open>\<^verbatim>\<open>INSERT OR IGNORE INTO metadata\<close>: the new table and \<^verbatim>\<open>cur.rowcount\<close>.\<close>

definition insert_or_ignore_metadata ::
  "metadata_row \<Rightarrow> metadata_row list \<Rightarrow> metadata_row list \<times> nat" where
  "insert_or_ignore_metadata row tbl =
     (if m_sha256 row \<in> set (map m_sha256 tbl) then (tbl, 0) else (tbl @ [row], 1))"

text \<open>\<^verbatim>\<open>INSERT INTO images\<close> and \<^verbatim>\<open>INSERT INTO stats\<close>: a present key raises.\<close>

definition insert_images :: "images_row \<Rightarrow> images_row list \<Rightarrow> exn + images_row list" where
  "insert_images row tbl =
     (if i_image_id row \<in> set (map i_image_id tbl) then Inl IntegrityError
      else Inr (tbl @ [row]))"

definition insert_stats :: "stats_row \<Rightarrow> stats_row list \<Rightarrow> exn + stats_row list" where
  "insert_stats row tbl =
     (if s_image_id row \<in> set (map s_image_id tbl) then Inl IntegrityError
      else Inr (tbl @ [row]))"

text \<open>\<^verbatim>\<open>q.enqueue(...)\<close>: \<open>None\<close> when it raises.\<close>

definition enqueue :: "rq \<Rightarrow> job \<Rightarrow> rq option" where
  "enqueue q j =
     (case accepts q of
        None \<Rightarrow> Some (q\<lparr>jobs := jobs q @ [j]\<rparr>)
      | Some 0 \<Rightarrow> None
      | Some (Suc k) \<Rightarrow> Some (q\<lparr>jobs := jobs q @ [j], accepts := Some k\<rparr>))"

text \<open>
  The body of the \<^verbatim>\<open>try\<close> around the three \<^verbatim>\<open>enqueue\<close> calls: the calls run in order and
  the first one that raises ends the block. The result is the queue and whether the
  \<^verbatim>\<open>except Exception\<close> branch ran.
\<close>

fun enqueue_each :: "rq \<Rightarrow> job list \<Rightarrow> rq \<times> bool" where
  "enqueue_each q [] = (q, False)"
| "enqueue_each q (j # js) =
     (case enqueue q j of None \<Rightarrow> (q, True) | Some q' \<Rightarrow> enqueue_each q' js)"

record item_metadata =
  r_width :: int
  r_height :: int
  r_format :: string
  r_size_bytes :: nat
  r_sha256 :: string
  r_first_upload :: timestamp

record item =
  r_status :: string
  r_image_id :: string
  r_original_name :: string
  r_processed_at :: timestamp
  r_metadata :: "item_metadata option"
  r_thumbnails :: "(string \<times> string) list"
  r_error :: "string option"

definition rstrip_slash :: "string \<Rightarrow> string" where
  "rstrip_slash b = rev (dropWhile (\<lambda>c. c = CHR ''/'') (rev b))"

definition build_item ::
  "string \<Rightarrow> string \<Rightarrow> string \<Rightarrow> string \<Rightarrow> timestamp \<Rightarrow> string option \<Rightarrow>
   item_metadata option \<Rightarrow> item" where
  "build_item base_url status image_id original_name processed_at error md =
     (let base = rstrip_slash base_url;
          thumbs =
            (if status = ''success''
             then [(''small'', base @ ''/api/images/'' @ image_id @ ''/thumbnails/small''),
                   (''medium'', base @ ''/api/images/'' @ image_id @ ''/thumbnails/medium'')]
             else [])
      in \<lparr>r_status = status, r_image_id = image_id, r_original_name = original_name,
          r_processed_at = processed_at, r_metadata = md, r_thumbnails = thumbs,
          r_error = error\<rparr>)"

text \<open>
  One call of \<^verbatim>\<open>POST /api/images\<close>: the uploaded file, the request's base URL, the value
  of \<^verbatim>\<open>uuid4().hex\<close>, the clock, whether creating the directory and writing the original
  to disk succeed, and, for a call on which they do not, whether the
  \<^verbatim>\<open>destination.unlink(missing_ok=True)\<close> of the \<^verbatim>\<open>except\<close> branch succeeds.
\<close>

record upload_call =
  c_file :: UploadFile
  c_base_url :: string
  c_uuid :: string
  c_now :: timestamp
  c_write_ok :: bool
  c_unlink_ok :: bool

text \<open>
  The \<^verbatim>\<open>except HTTPException\<close> branch of \<^verbatim>\<open>upload_img\<close>: both inserts run in one
  transaction, so a primary-key violation leaves the tables as they were.
\<close>

definition record_rejected ::
  "upload_call \<Rightarrow> string \<Rightarrow> string \<Rightarrow> string \<Rightarrow> system \<Rightarrow> (exn + item) \<times> system" where
  "record_rejected c image_id original_name err_msg s =
     (case insert_images
             \<lparr>i_image_id = image_id, i_original_name = original_name,
              i_processed_at = c_now c, i_image_path = None, i_metadata_sha256 = None,
              i_error = Some err_msg\<rparr> (images s) of
        Inl e \<Rightarrow> (Inl e, s)
      | Inr imgs \<Rightarrow>
          (case insert_stats
                  \<lparr>s_image_id = image_id, s_start_time = c_now c, s_end_time = None,
                   s_status = 0\<rparr> (stats s) of
             Inl e \<Rightarrow> (Inl e, s)
           | Inr sts \<Rightarrow>
               (Inr (build_item (c_base_url c) ''failed'' image_id original_name (c_now c)
                       (Some err_msg) None),
                s\<lparr>images := imgs, stats := sts\<rparr>)))"

text \<open>
  The transaction of the accepted path: insert-if-absent of the metadata row, the
  enqueue block when the row was new, then the images and stats rows. The queue is not
  part of the transaction: jobs enqueued before a primary-key violation stay enqueued.
\<close>

definition record_accepted ::
  "upload_call \<Rightarrow> string \<Rightarrow> string \<Rightarrow> string \<Rightarrow> ValidatedUpload \<Rightarrow> system \<Rightarrow>
   (exn + item) \<times> system" where
  "record_accepted c image_id original_name image_path v s =
     (let size = length (bytes v);
          (md, rowcount) =
            insert_or_ignore_metadata
              \<lparr>m_sha256 = sha256 v, m_width = width v, m_height = height v,
               m_format = format v, m_size_bytes = size, m_first_upload = c_now c,
               m_exif_json = None, m_caption = None\<rparr> (metadata s);
          s1 =
            (if rowcount = 0 then s
             else
               (case enqueue_each (queue s)
                       [Thumbnail_job (sha256 v) image_path,
                        Exif_job (sha256 v) image_path,
                        Caption_job (sha256 v) image_path image_id] of
                  (q, raised) \<Rightarrow>
                    s\<lparr>queue := q,
                      log := (if raised then log s @ [''failed_to_enqueue''] else log s)\<rparr>))
      in case insert_images
                \<lparr>i_image_id = image_id, i_original_name = original_name,
                 i_processed_at = c_now c, i_image_path = Some image_path,
                 i_metadata_sha256 = Some (sha256 v), i_error = None\<rparr> (images s) of
           Inl e \<Rightarrow> (Inl e, s1)
         | Inr imgs \<Rightarrow>
             (case insert_stats
                     \<lparr>s_image_id = image_id, s_start_time = c_now c, s_end_time = None,
                      s_status = 1\<rparr> (stats s) of
                Inl e \<Rightarrow> (Inl e, s1)
              | Inr sts \<Rightarrow>
                  (Inr (build_item (c_base_url c) ''success'' image_id original_name (c_now c)
                          None
                          (Some \<lparr>r_width = width v, r_height = height v,
                                 r_format = format v, r_size_bytes = size,
                                 r_sha256 = sha256 v, r_first_upload = c_now c\<rparr>)),
                   s1\<lparr>metadata := md, images := imgs, stats := sts\<rparr>)))"

text \<open>
  The handler. An \<^verbatim>\<open>HTTPException\<close> of the validator is recorded; any other exception of
  the validator ends the call. When the \<^verbatim>\<open>try\<close> block around \<^verbatim>\<open>mkdir\<close> and \<^verbatim>\<open>write_bytes\<close>
  raises, the \<^verbatim>\<open>except\<close> branch first unlinks the destination and then raises the 500; an
  \<^verbatim>\<open>unlink\<close> that raises ends the call with its own \<^verbatim>\<open>OSError\<close>, and the 500 is never
  raised. A write that fails is taken to leave the stored files as they were.
\<close>

definition upload_img ::
  "(bytes \<Rightarrow> string) \<Rightarrow> decoder \<Rightarrow> upload_call \<Rightarrow> system \<Rightarrow> (exn + item) \<times> system" where
  "upload_img hexdigest image_open c s =
     (let original_name = py_or (filename (c_file c)) ''upload'';
          extension = lower (path_suffix original_name);
          image_id = c_uuid c;
          stored_filename = image_id @ extension;
          destination = MEDIA_DIR @ ''/originals/'' @ stored_filename
      in case validate hexdigest image_open (c_file c) of
           Inl (HTTPException code detail) \<Rightarrow>
             record_rejected c image_id original_name detail s
         | Inl e \<Rightarrow> (Inl e, s)
         | Inr v \<Rightarrow>
             if \<not> c_write_ok c
             then
               (if \<not> c_unlink_ok c then (Inl (Uncaught OSError), s)
                else (Inl (HTTPException 500 ''Failed to save image''),
                      s\<lparr>files := (files s)(destination := None)\<rparr>))
             else record_accepted c image_id original_name destination v
                    (s\<lparr>files := (files s)(destination \<mapsto> bytes v)\<rparr>))"

text \<open>
  The state after \<^verbatim>\<open>init()\<close> on a new database: the three tables exist and are empty;
  nothing is enqueued or stored, and the queue's connection works.
\<close>

definition init :: system where
  "init = \<lparr>metadata = [], images = [], stats = [],
           queue = \<lparr>jobs = [], accepts = None\<rparr>, files = Map.empty, log = []\<rparr>"

section \<open>The statistics: \<^verbatim>\<open>get_stats\<close>\<close>

text \<open>
  Python's \<^verbatim>\<open>round\<close> and the \<^verbatim>\<open>.2f\<close> format both round to the nearest value and a tie
  to the even one. \<open>round_half_even a b\<close> rounds the fraction \<open>a / b\<close> (\<open>0 < b\<close>) to an
  integer.
\<close>

definition round_half_even :: "int \<Rightarrow> int \<Rightarrow> int" where
  "round_half_even a b =
     (let q = a div b; r = a mod b
      in if 2 * r < b then q
         else if 2 * r > b then q + 1
         else if even q then q else q + 1)"

definition digit_char :: "nat \<Rightarrow> char" where
  "digit_char n = ''0123456789'' ! (n mod 10)"

fun decimal :: "nat \<Rightarrow> string" where
  "decimal n = (if n < 10 then [digit_char n] else decimal (n div 10) @ [digit_char n])"

declare decimal.simps [simp del]

text \<open>
  The success rate is computed in binary floating point. A non-negative \<^verbatim>\<open>float\<close> is
  modelled by a fraction \<open>(n, d)\<close> that it equals, \<open>d\<close> a power of two. \<^verbatim>\<open>a / b\<close> on two
  integers is the IEEE 754 binary64 number nearest to the quotient, a tie going to the
  even significand: \<open>floor_log2 a b\<close> is the exponent of the quotient, found from the bit
  lengths of \<open>a\<close> and \<open>b\<close>, the significand has 53 bits (fewer below the smallest normal
  number, whose exponent is \<open>-1022\<close>), and the quotient is rounded to a multiple of
  \<open>2 ^ e\<close>. \<^verbatim>\<open>x * k\<close> is the binary64 number nearest to the product.
\<close>

type_synonym pyfloat = "nat \<times> nat"

fun bit_length :: "nat \<Rightarrow> nat" where
  "bit_length n = (if n = 0 then 0 else Suc (bit_length (n div 2)))"

declare bit_length.simps [simp del]

definition ge_pow2 :: "nat \<Rightarrow> nat \<Rightarrow> int \<Rightarrow> bool" where
  "ge_pow2 a b k = (if 0 \<le> k then b * 2 ^ nat k \<le> a else b \<le> a * 2 ^ nat (- k))"

definition floor_log2 :: "nat \<Rightarrow> nat \<Rightarrow> int" where
  "floor_log2 a b =
     (let k = int (bit_length a) - int (bit_length b) in if ge_pow2 a b k then k else k - 1)"

definition binary64 :: "nat \<Rightarrow> nat \<Rightarrow> pyfloat" where
  "binary64 a b =
     (if a = 0 then (0, 1)
      else
        let e = max (floor_log2 a b - 52) (- 1074)
        in if 0 \<le> e
           then (nat (round_half_even (int a) (int b * 2 ^ nat e)) * 2 ^ nat e, 1)
           else (nat (round_half_even (int a * 2 ^ nat (- e)) (int b)), 2 ^ nat (- e)))"

definition float_mul :: "pyfloat \<Rightarrow> nat \<Rightarrow> pyfloat" where
  "float_mul x k = binary64 (fst x * k) (snd x)"

text \<open>
  \<^verbatim>\<open>f"{x:.2f}"\<close> for a non-negative \<^verbatim>\<open>float\<close>: the decimal with two places nearest to the
  number the \<^verbatim>\<open>float\<close> holds, a tie going to the even last digit.
\<close>

definition format_2f :: "pyfloat \<Rightarrow> string" where
  "format_2f x =
     (let h = nat (round_half_even (int (fst x) * 100) (int (snd x)))
      in decimal (h div 100) @ ''.'' @ [digit_char (h div 10), digit_char h])"

text \<open>
  The report. The durations are differences of timestamps that carry no fraction of a
  second, hence whole numbers of seconds; the model rounds the exact quotient of their
  sum by their number, which is what \<^verbatim>\<open>round\<close> gives on the \<^verbatim>\<open>float\<close> quotient while the sum
  stays below \<open>2 ^ 52\<close> in absolute value.
\<close>

record stats_report =
  total :: nat
  failed :: nat
  success_rate :: string
  average_processing_time_seconds :: int

definition get_stats :: "stats_row list \<Rightarrow> stats_report" where
  "get_stats rows =
     (let total = length rows;
          failed = length (filter (\<lambda>r. s_status r = 0) rows);
          durations =
            map (\<lambda>r. the (s_end_time r) - s_start_time r)
              (filter (\<lambda>r. s_end_time r \<noteq> None) rows);
          avg_seconds =
            (if durations \<noteq> []
             then round_half_even (sum_list durations) (int (length durations))
             else 0);
          completed = rows;
          completed_total = length completed;
          completed_success = length (filter (\<lambda>r. s_status r = 1) completed);
          success_rate =
            (if completed_total \<noteq> 0
             then format_2f (float_mul (binary64 completed_success completed_total) 100) @ ''%''
             else ''0.00%'')
      in \<lparr>total = total, failed = failed, success_rate = success_rate,
          average_processing_time_seconds = avg_seconds\<rparr>)"

section \<open>The worker's jobs: \<^verbatim>\<open>app/jobs.py\<close>\<close>

text \<open>
  \<^verbatim>\<open>extractCaption\<close>, \<^verbatim>\<open>extractExif\<close> and \<^verbatim>\<open>generateThumbnail\<close> read the stored original
  and run library code (the caption model, PIL); they are parameters, \<open>None\<close> when they
  raise. A job that raises returns \<open>None\<close>; the two thumbnail files are written in one
  step.
\<close>

definition read_original :: "system \<Rightarrow> string \<Rightarrow> bytes option" where
  "read_original s image_path = files s image_path"

definition caption_job ::
  "(bytes \<Rightarrow> string option) \<Rightarrow> timestamp \<Rightarrow> string \<Rightarrow> string \<Rightarrow> string \<Rightarrow> system \<Rightarrow>
   system option" where
  "caption_job extractCaption t sha image_path image_id s =
     (case Option.bind (read_original s image_path) extractCaption of
        None \<Rightarrow> None
      | Some caption \<Rightarrow>
          Some (s\<lparr>metadata :=
                     map (\<lambda>r. if m_sha256 r = sha then r\<lparr>m_caption := Some caption\<rparr> else r)
                       (metadata s),
                   stats :=
                     map (\<lambda>r. if s_image_id r = image_id
                              then r\<lparr>s_status := 1, s_end_time := Some t\<rparr> else r)
                       (stats s),
                   images :=
                     map (\<lambda>r. if i_image_id r = image_id
                              then r\<lparr>i_processed_at := t\<rparr> else r)
                       (images s)\<rparr>))"




section \<open>Notions used in the statements\<close>

text \<open>
  The path of the stored original (\<^verbatim>\<open>destination\<close> in \<^verbatim>\<open>upload_img\<close>), an identifier that
  no row of \<^verbatim>\<open>images\<close> or \<^verbatim>\<open>stats\<close> carries yet, as a value of \<^verbatim>\<open>uuid4()\<close> is, and the
  three jobs of one upload in the order of the \<^verbatim>\<open>enqueue\<close> calls.
\<close>

definition destination :: "upload_call \<Rightarrow> string" where
  "destination c =
     MEDIA_DIR @ ''/originals/'' @ c_uuid c @
       lower (path_suffix (py_or (filename (c_file c)) ''upload''))"

definition fresh :: "string \<Rightarrow> system \<Rightarrow> bool" where
  "fresh image_id s \<longleftrightarrow>
     image_id \<notin> set (map i_image_id (images s)) \<and> image_id \<notin> set (map s_image_id (stats s))"

definition three_jobs :: "string \<Rightarrow> string \<Rightarrow> string \<Rightarrow> job list" where
  "three_jobs sha image_path image_id =
     [Thumbnail_job sha image_path, Exif_job sha image_path, Caption_job sha image_path image_id]"

section \<open>Test doubles\<close>

text \<open>
  Stand-ins for the library collaborators and sample uploads, in the manner of the
  repository's tests (\<^verbatim>\<open>DummyQueue\<close>, \<^verbatim>\<open>make_upload\<close>): a payload that is the PNG signature
  and one more byte, one that starts as a JPEG does, a decoder that reads every payload
  as a 10 by 10 image of a given format, and a digest that returns 64 hexadecimal
  characters.
\<close>

definition png_payload :: bytes where
  "png_payload = [0x89, 0x50, 0x4E, 0x47, 0x0D, 0x0A, 0x1A, 0x0A, 0x00]"

definition jpeg_payload :: bytes where
  "jpeg_payload = [0xFF, 0xD8, 0xFF, 0xE0]"

definition decoder_10x10 :: "string \<Rightarrow> decoder" where
  "decoder_10x10 fmt = (\<lambda>d. Inr \<lparr>img_size = (10, 10), img_format = fmt, img_verify = None\<rparr>)"

definition toy_digest :: "bytes \<Rightarrow> string" where
  "toy_digest d = replicate 64 (digit_char (length d))"

definition make_upload :: "string \<Rightarrow> bytes \<Rightarrow> string \<Rightarrow> UploadFile" where
  "make_upload name data mime_type =
     \<lparr>filename = Some name, content_type = Some mime_type, content = data\<rparr>"

definition make_call :: "UploadFile \<Rightarrow> string \<Rightarrow> timestamp \<Rightarrow> bool \<Rightarrow> upload_call" where
  "make_call f image_id t ok =
     \<lparr>c_file = f, c_base_url = ''http://testserver/'', c_uuid = image_id, c_now = t,
      c_write_ok = ok, c_unlink_ok = True\<rparr>"

text \<open>
  Two decoders that do what PIL does on files which the handlers of \<^verbatim>\<open>pil_validate\<close> are
  not prepared for. The first is PIL on a PNG whose header is sound and whose data chunk
  carries a wrong checksum: \<^verbatim>\<open>Image.open\<close> returns the image and \<^verbatim>\<open>verify()\<close> raises a
  \<^verbatim>\<open>SyntaxError\<close>. The second is \<^verbatim>\<open>Image.open\<close> on the header of a PNG: it reads the width
  and the height from the \<^verbatim>\<open>IHDR\<close> chunk (two big-endian numbers of four bytes each, at
  offsets 16 and 20) and raises a \<^verbatim>\<open>DecompressionBombError\<close> when they multiply to more
  than twice \<^verbatim>\<open>Image.MAX_IMAGE_PIXELS\<close>. \<open>huge_header_png\<close> is the PNG signature and an
  \<^verbatim>\<open>IHDR\<close> chunk that declares 20000 by 20000 pixels, \<open>large_header_png\<close> one that declares
  10000 by 6000.
\<close>

definition decoder_bad_checksum :: decoder where
  "decoder_bad_checksum =
     (\<lambda>d. Inr \<lparr>img_size = (10, 10), img_format = ''PNG'', img_verify = Some SyntaxError\<rparr>)"

definition be32 :: "bytes \<Rightarrow> int" where
  "be32 bs = foldl (\<lambda>a b. a * 256 + uint b) 0 bs"

definition header_size :: "bytes \<Rightarrow> int \<times> int" where
  "header_size d = (be32 (take 4 (drop 16 d)), be32 (take 4 (drop 20 d)))"

definition MAX_IMAGE_PIXELS :: int where
  "MAX_IMAGE_PIXELS = 89478485"

definition decoder_png_header :: decoder where
  "decoder_png_header d =
     (case header_size d of
        (w, h) \<Rightarrow>
          if w * h > 2 * MAX_IMAGE_PIXELS then Inl DecompressionBombError
          else Inr \<lparr>img_size = (w, h), img_format = ''PNG'', img_verify = None\<rparr>)"

definition huge_header_png :: bytes where
  "huge_header_png =
     [0x89, 0x50, 0x4E, 0x47, 0x0D, 0x0A, 0x1A, 0x0A,
      0x00, 0x00, 0x00, 0x0D, 0x49, 0x48, 0x44, 0x52,
      0x00, 0x00, 0x4E, 0x20, 0x00, 0x00, 0x4E, 0x20,
      0x08, 0x02, 0x00, 0x00, 0x00]"

definition large_header_png :: bytes where
  "large_header_png =
     [0x89, 0x50, 0x4E, 0x47, 0x0D, 0x0A, 0x1A, 0x0A,
      0x00, 0x00, 0x00, 0x0D, 0x49, 0x48, 0x44, 0x52,
      0x00, 0x00, 0x27, 0x10, 0x00, 0x00, 0x17, 0x70,
      0x08, 0x02, 0x00, 0x00, 0x00]"

text \<open>
  Two uploads of the same PNG payload under different names, the upload handler run
  with the doubles, and a queue whose connection drops after one job.
\<close>

definition png_validated :: ValidatedUpload where
  "png_validated =
     \<lparr>ext = ''.png'', mime = ''image/png'', bytes = png_payload,
      sha256 = toy_digest png_payload, width = 10, height = 10, format = ''png''\<rparr>"

definition upload_a :: upload_call where
  "upload_a = make_call (make_upload ''a.png'' png_payload ''image/png'') ''id1'' 100 True"

definition upload_b :: upload_call where
  "upload_b = make_call (make_upload ''b.png'' png_payload ''image/png'') ''id2'' 101 True"

definition post :: "upload_call \<Rightarrow> system \<Rightarrow> (exn + item) \<times> system" where
  "post c s = upload_img toy_digest (decoder_10x10 ''PNG'') c s"

definition dropping_queue :: system where
  "dropping_queue = init\<lparr>queue := \<lparr>jobs = [], accepts = Some 1\<rparr>\<rparr>"

text \<open>
  The spreadsheet of the repository's API test, an upload whose original cannot be
  written to disk, one on which the cleanup after the failed write fails as well, and a
  caption model that describes every image alike.
\<close>

definition upload_evil :: upload_call where
  "upload_evil =
     make_call (make_upload ''evil.xlsx'' [0x6A, 0x75, 0x6E, 0x6B] ''application/vnd.ms-excel'')
       ''id3'' 102 True"

definition upload_unwritable :: upload_call where
  "upload_unwritable =
     make_call (make_upload ''a.png'' png_payload ''image/png'') ''id1'' 100 False"

definition upload_stuck :: upload_call where
  "upload_stuck = upload_unwritable\<lparr>c_unlink_ok := False\<rparr>"

definition caption_double :: "bytes \<Rightarrow> string option" where
  "caption_double d = Some ''a picture''"

text \<open>
  A JPEG upload of other content, and the ledger after four uploads and the two caption
  jobs they enqueue: the PNG, the same PNG again, the spreadsheet and the JPEG, then the
  caption jobs of the first and the last. \<open>four_attempts\<close> is the \<^verbatim>\<open>stats\<close> table this run
  leaves: two attempts completed with success, one failed, and one, the repeated PNG,
  accepted and never processed.
\<close>

definition upload_j :: upload_call where
  "upload_j = make_call (make_upload ''c.jpg'' jpeg_payload ''image/jpeg'') ''id4'' 103 True"

definition run_four :: system where
  "run_four =
     (let s1 = snd (post upload_a init);
          s2 = snd (post upload_b s1);
          s3 = snd (post upload_evil s2);
          s4 = snd (post upload_j s3);
          s5 = the (caption_job caption_double 104 (toy_digest png_payload)
                      (destination upload_a) ''id1'' s4);
          s6 = the (caption_job caption_double 108 (toy_digest jpeg_payload)
                      (destination upload_j) ''id4'' s5)
      in s6)"

definition four_attempts :: "stats_row list" where
  "four_attempts =
     [\<lparr>s_image_id = ''id1'', s_start_time = 100, s_end_time = Some 104, s_status = 1\<rparr>,
      \<lparr>s_image_id = ''id2'', s_start_time = 101, s_end_time = None, s_status = 1\<rparr>,
      \<lparr>s_image_id = ''id3'', s_start_time = 102, s_end_time = None, s_status = 0\<rparr>,
      \<lparr>s_image_id = ''id4'', s_start_time = 103, s_end_time = Some 108, s_status = 1\<rparr>]"

section \<open>Properties of the validator\<close>

lemma validate_unfold:
  "validate H D f =
     (if get_ext (py_or (filename f) '''') \<notin> ALLOWED_EXTENSIONS
      then Inl (HTTPException 400
                  (''Bad Extension '' @ py_or (Some (get_ext (py_or (filename f) ''''))) ''none''))
      else if lower (py_or (content_type f) '''') \<notin> ALLOWED_MIME
      then Inl (HTTPException 400
                  (''Bad MIME type: '' @
                   py_or (Some (lower (py_or (content_type f) ''''))) ''(none)''))
      else if content f = [] then Inl (HTTPException 400 ''Empty upload'')
      else if \<not> match_signature (lower (py_or (content_type f) '''')) (content f)
      then Inl (HTTPException 400 ''File bytes do not match image type'')
      else (case pil_validate D (content f) 50000000 of
              Inl e \<Rightarrow> Inl e
            | Inr (w, h, fmt) \<Rightarrow>
                Inr \<lparr>ext = get_ext (py_or (filename f) ''''),
                     mime = lower (py_or (content_type f) ''''),
                     bytes = content f, sha256 = H (content f),
                     width = w, height = h, format = fmt\<rparr>))"
  by (simp add: validate_def Let_def)

lemma match_signature_jpeg:
  "match_signature ''image/jpeg'' d = prefix [0xFF, 0xD8, 0xFF] d"
  by (simp add: match_signature_def SIGNATURES_def JPEG_SIGNATURE_def)

lemma match_signature_png:
  "match_signature ''image/png'' d = prefix [0x89, 0x50, 0x4E, 0x47, 0x0D, 0x0A, 0x1A, 0x0A] d"
  by (simp add: match_signature_def SIGNATURES_def PNG_SIGNATURE_def)

lemma get_ext_x_png: "get_ext ''x.png'' = ''.png''"
  by code_simp

lemma get_ext_photo_jpg: "get_ext ''photo.jpg'' = ''.jpg''"
  by code_simp

lemma lower_image_png: "lower ''image/png'' = ''image/png''"
  by code_simp

lemma lower_image_jpeg: "lower ''image/jpeg'' = ''image/jpeg''"
  by code_simp

text \<open>
  C5. A non-empty payload whose first bytes are not the signature of its declared
  content type (\<^verbatim>\<open>FF D8 FF\<close> for \<^verbatim>\<open>image/jpeg\<close>, the eight bytes
  \<^verbatim>\<open>89 50 4E 47 0D 0A 1A 0A\<close> for \<^verbatim>\<open>image/png\<close>) is rejected with the signature
  mismatch error, although its extension and its declared MIME type are both allowed;
  the decoder is not consulted.
\<close>

theorem signature_mismatch_rejected:
  assumes "get_ext (py_or (filename f) '''') \<in> ALLOWED_EXTENSIONS"
    and "lower (py_or (content_type f) '''') = m"
    and "m \<in> ALLOWED_MIME"
    and "content f \<noteq> []"
    and "m = ''image/jpeg'' \<Longrightarrow> \<not> prefix [0xFF, 0xD8, 0xFF] (content f)"
    and "m = ''image/png'' \<Longrightarrow>
           \<not> prefix [0x89, 0x50, 0x4E, 0x47, 0x0D, 0x0A, 0x1A, 0x0A] (content f)"
  shows "validate H D f = Inl (HTTPException 400 ''File bytes do not match image type'')"
proof -
  have "\<not> match_signature m (content f)"
    using assms(3,5,6)
    by (auto simp: ALLOWED_MIME_def match_signature_jpeg match_signature_png)
  with assms(1-4) show ?thesis
    by (simp add: validate_unfold)
qed

text \<open>
  The text file of the repository's test \<^verbatim>\<open>test_validate_bad_signature\<close>: the bytes
  \<^verbatim>\<open>b"notapng"\<close> uploaded as \<^verbatim>\<open>x.png\<close> with content type \<^verbatim>\<open>image/png\<close>.
\<close>

theorem signature_mismatch_rejected_witness:
  "validate (\<lambda>d. []) (\<lambda>d. Inl OSError)
     \<lparr>filename = Some ''x.png'', content_type = Some ''image/png'',
      content = [0x6E, 0x6F, 0x74, 0x61, 0x70, 0x6E, 0x67]\<rparr>
   = Inl (HTTPException 400 ''File bytes do not match image type'')"
  by (rule signature_mismatch_rejected [where m = "''image/png''"])
     (simp_all add: py_or_def get_ext_x_png lower_image_png ALLOWED_EXTENSIONS_def
        ALLOWED_MIME_def)

lemma pil_handler_decode_error:
  "named_error e \<Longrightarrow> pil_handler e = HTTPException 400 ''Invalid or corrupted image''"
  by (simp add: pil_handler_def named_error_def)

lemma pil_handler_uncaught: "\<not> named_error e \<Longrightarrow> pil_handler e = Uncaught e"
  by (simp add: pil_handler_def named_error_def)

lemma pil_validate_Inl:
  assumes "decode_errors_only D d" and "pil_validate D d mp = Inl x"
  shows "x = HTTPException 400 ''Invalid or corrupted image''"
  using assms
  by (auto simp: decode_errors_only_def pil_validate_def pil_handler_decode_error
      split: sum.splits prod.splits if_splits option.splits)

lemma rejected_bad_extension:
  "get_ext (py_or (filename f) '''') \<notin> ALLOWED_EXTENSIONS \<Longrightarrow>
   rejected_as (validate H D f) = Some BadExtension"
  by (simp add: validate_unfold rejected_as_def rejection_of_def)

lemma rejected_bad_mime:
  "get_ext (py_or (filename f) '''') \<in> ALLOWED_EXTENSIONS \<Longrightarrow>
   lower (py_or (content_type f) '''') \<notin> ALLOWED_MIME \<Longrightarrow>
   rejected_as (validate H D f) = Some BadMimeType"
  by (simp add: validate_unfold rejected_as_def rejection_of_def)

lemma rejected_empty:
  "get_ext (py_or (filename f) '''') \<in> ALLOWED_EXTENSIONS \<Longrightarrow>
   lower (py_or (content_type f) '''') \<in> ALLOWED_MIME \<Longrightarrow> content f = [] \<Longrightarrow>
   rejected_as (validate H D f) = Some EmptyUpload"
  by (simp add: validate_unfold rejected_as_def rejection_of_def)

lemma rejected_signature:
  "get_ext (py_or (filename f) '''') \<in> ALLOWED_EXTENSIONS \<Longrightarrow>
   lower (py_or (content_type f) '''') \<in> ALLOWED_MIME \<Longrightarrow> content f \<noteq> [] \<Longrightarrow>
   \<not> match_signature (lower (py_or (content_type f) '''')) (content f) \<Longrightarrow>
   rejected_as (validate H D f) = Some SignatureMismatch"
  by (simp add: validate_unfold rejected_as_def rejection_of_def)

lemma rejected_corrupt:
  "get_ext (py_or (filename f) '''') \<in> ALLOWED_EXTENSIONS \<Longrightarrow>
   lower (py_or (content_type f) '''') \<in> ALLOWED_MIME \<Longrightarrow> content f \<noteq> [] \<Longrightarrow>
   match_signature (lower (py_or (content_type f) '''')) (content f) \<Longrightarrow>
   decode_errors_only D (content f) \<Longrightarrow>
   pil_validate D (content f) 50000000 = Inl x \<Longrightarrow>
   rejected_as (validate H D f) = Some CorruptImage"
  by (frule (1) pil_validate_Inl) (simp add: validate_unfold rejected_as_def rejection_of_def)

lemma validate_accepts:
  "get_ext (py_or (filename f) '''') \<in> ALLOWED_EXTENSIONS \<Longrightarrow>
   lower (py_or (content_type f) '''') \<in> ALLOWED_MIME \<Longrightarrow> content f \<noteq> [] \<Longrightarrow>
   match_signature (lower (py_or (content_type f) '''')) (content f) \<Longrightarrow>
   pil_validate D (content f) 50000000 = Inr (w, h, fmt) \<Longrightarrow>
   validate H D f =
        Inr \<lparr>ext = get_ext (py_or (filename f) ''''),
             mime = lower (py_or (content_type f) ''''),
             bytes = content f, sha256 = H (content f),
             width = w, height = h, format = fmt\<rparr>"
  by (simp add: validate_unfold)

text \<open>
  The order of the checks. The validator checks the extension, the declared MIME type,
  that the payload is not empty, the magic bytes and the decoder's verdict, and stops at
  the first check that fails: each rejection below presupposes that the checks before it
  passed and nothing about the checks after it. When all five pass the result is the
  validated upload with its seven fields. On bytes on which the decoder raises nothing
  but the two classes of exception that \<^verbatim>\<open>pil_validate\<close> names, the result is a validated
  upload or exactly one of the five rejections (\<open>rejected_as\<close> is a function). The
  validator is a function of the file and its two library collaborators: it reads and
  writes no state.
\<close>

lemma validate_checks_in_order:
  "(get_ext (py_or (filename f) '''') \<notin> ALLOWED_EXTENSIONS \<longrightarrow>
      rejected_as (validate H D f) = Some BadExtension) \<and>
   (get_ext (py_or (filename f) '''') \<in> ALLOWED_EXTENSIONS \<and>
    lower (py_or (content_type f) '''') \<notin> ALLOWED_MIME \<longrightarrow>
      rejected_as (validate H D f) = Some BadMimeType) \<and>
   (get_ext (py_or (filename f) '''') \<in> ALLOWED_EXTENSIONS \<and>
    lower (py_or (content_type f) '''') \<in> ALLOWED_MIME \<and> content f = [] \<longrightarrow>
      rejected_as (validate H D f) = Some EmptyUpload) \<and>
   (get_ext (py_or (filename f) '''') \<in> ALLOWED_EXTENSIONS \<and>
    lower (py_or (content_type f) '''') \<in> ALLOWED_MIME \<and> content f \<noteq> [] \<and>
    \<not> match_signature (lower (py_or (content_type f) '''')) (content f) \<longrightarrow>
      rejected_as (validate H D f) = Some SignatureMismatch) \<and>
   (get_ext (py_or (filename f) '''') \<in> ALLOWED_EXTENSIONS \<and>
    lower (py_or (content_type f) '''') \<in> ALLOWED_MIME \<and> content f \<noteq> [] \<and>
    match_signature (lower (py_or (content_type f) '''')) (content f) \<and>
    decode_errors_only D (content f) \<and>
    pil_validate D (content f) 50000000 = Inl x \<longrightarrow>
      rejected_as (validate H D f) = Some CorruptImage) \<and>
   (get_ext (py_or (filename f) '''') \<in> ALLOWED_EXTENSIONS \<and>
    lower (py_or (content_type f) '''') \<in> ALLOWED_MIME \<and> content f \<noteq> [] \<and>
    match_signature (lower (py_or (content_type f) '''')) (content f) \<and>
    pil_validate D (content f) 50000000 = Inr (w, h, fmt) \<longrightarrow>
      validate H D f =
        Inr \<lparr>ext = get_ext (py_or (filename f) ''''),
             mime = lower (py_or (content_type f) ''''),
             bytes = content f, sha256 = H (content f),
             width = w, height = h, format = fmt\<rparr>) \<and>
   (decode_errors_only D (content f) \<longrightarrow>
      (\<exists>v. validate H D f = Inr v) \<or> (\<exists>k. rejected_as (validate H D f) = Some k))"
proof (intro conjI impI)
  assume ok: "decode_errors_only D (content f)"
  show "(\<exists>v. validate H D f = Inr v) \<or> (\<exists>k. rejected_as (validate H D f) = Some k)"
  proof (cases "pil_validate D (content f) 50000000")
    case (Inl y)
    then show ?thesis
      using ok rejected_bad_extension [of f H D] rejected_bad_mime [of f H D]
        rejected_empty [of f H D] rejected_signature [of f H D]
        rejected_corrupt [of f D y H]
      by blast
  next
    case (Inr t)
    obtain w' h' fmt' where "t = (w', h', fmt')"
      by (cases t) auto
    with Inr show ?thesis
      using rejected_bad_extension [of f H D] rejected_bad_mime [of f H D]
        rejected_empty [of f H D] rejected_signature [of f H D]
        validate_accepts [of f D w' h' fmt' H]
      by blast
  qed
qed (simp_all add: rejected_bad_extension rejected_bad_mime rejected_empty
       rejected_signature rejected_corrupt validate_accepts)

lemma get_ext_evil_xlsx: "get_ext ''evil.xlsx'' = ''.xlsx''"
  by code_simp

lemma lower_text_plain: "lower ''text/plain'' = ''text/plain''"
  by code_simp

lemma lower_PNG: "lower ''PNG'' = ''png''"
  by code_simp

lemma lower_JPEG: "lower ''JPEG'' = ''jpeg''"
  by code_simp

text \<open>
  One upload per outcome: the spreadsheet of the repository's API test, a PNG name with
  a wrong content type, an empty payload, the text file of the validator test, a payload
  with the PNG signature that the decoder refuses, and one that it accepts as 10 by 10.
\<close>

lemma validate_checks_in_order_samples:
  "rejected_as (validate (\<lambda>d. []) (\<lambda>d. Inl OSError)
      \<lparr>filename = Some ''evil.xlsx'', content_type = Some ''application/vnd.ms-excel'',
       content = [0x6A, 0x75, 0x6E, 0x6B]\<rparr>) = Some BadExtension \<and>
   rejected_as (validate (\<lambda>d. []) (\<lambda>d. Inl OSError)
      \<lparr>filename = Some ''x.png'', content_type = Some ''text/plain'',
       content = [0x6A, 0x75, 0x6E, 0x6B]\<rparr>) = Some BadMimeType \<and>
   rejected_as (validate (\<lambda>d. []) (\<lambda>d. Inl OSError)
      \<lparr>filename = Some ''x.png'', content_type = Some ''image/png'',
       content = []\<rparr>) = Some EmptyUpload \<and>
   rejected_as (validate (\<lambda>d. []) (\<lambda>d. Inl OSError)
      \<lparr>filename = Some ''x.png'', content_type = Some ''image/png'',
       content = [0x6E, 0x6F, 0x74, 0x61, 0x70, 0x6E, 0x67]\<rparr>) = Some SignatureMismatch \<and>
   rejected_as (validate (\<lambda>d. []) (\<lambda>d. Inl OSError)
      \<lparr>filename = Some ''x.png'', content_type = Some ''image/png'',
       content = [0x89, 0x50, 0x4E, 0x47, 0x0D, 0x0A, 0x1A, 0x0A, 0x00]\<rparr>) = Some CorruptImage \<and>
   validate (\<lambda>d. [])
      (\<lambda>d. Inr \<lparr>img_size = (10, 10), img_format = ''PNG'', img_verify = None\<rparr>)
      \<lparr>filename = Some ''x.png'', content_type = Some ''image/png'',
       content = [0x89, 0x50, 0x4E, 0x47, 0x0D, 0x0A, 0x1A, 0x0A, 0x00]\<rparr> =
     Inr \<lparr>ext = ''.png'', mime = ''image/png'',
          bytes = [0x89, 0x50, 0x4E, 0x47, 0x0D, 0x0A, 0x1A, 0x0A, 0x00], sha256 = [],
          width = 10, height = 10, format = ''png''\<rparr>"
proof (intro conjI)
  note defs = py_or_def ALLOWED_EXTENSIONS_def ALLOWED_MIME_def get_ext_evil_xlsx
    get_ext_x_png lower_image_png lower_text_plain match_signature_png
    decode_errors_only_def named_error_def pil_validate_def pil_handler_def lower_PNG
  show "rejected_as (validate (\<lambda>d. []) (\<lambda>d. Inl OSError)
      \<lparr>filename = Some ''evil.xlsx'', content_type = Some ''application/vnd.ms-excel'',
       content = [0x6A, 0x75, 0x6E, 0x6B]\<rparr>) = Some BadExtension"
    by (rule validate_checks_in_order [THEN conjunct1, rule_format]) (simp add: defs)
  show "rejected_as (validate (\<lambda>d. []) (\<lambda>d. Inl OSError)
      \<lparr>filename = Some ''x.png'', content_type = Some ''text/plain'',
       content = [0x6A, 0x75, 0x6E, 0x6B]\<rparr>) = Some BadMimeType"
    by (rule validate_checks_in_order [THEN conjunct2, THEN conjunct1, rule_format])
       (simp add: defs)
  show "rejected_as (validate (\<lambda>d. []) (\<lambda>d. Inl OSError)
      \<lparr>filename = Some ''x.png'', content_type = Some ''image/png'',
       content = []\<rparr>) = Some EmptyUpload"
    by (rule validate_checks_in_order
          [THEN conjunct2, THEN conjunct2, THEN conjunct1, rule_format])
       (simp add: defs)
  show "rejected_as (validate (\<lambda>d. []) (\<lambda>d. Inl OSError)
      \<lparr>filename = Some ''x.png'', content_type = Some ''image/png'',
       content = [0x6E, 0x6F, 0x74, 0x61, 0x70, 0x6E, 0x67]\<rparr>) = Some SignatureMismatch"
    by (rule validate_checks_in_order
          [THEN conjunct2, THEN conjunct2, THEN conjunct2, THEN conjunct1, rule_format])
       (simp add: defs)
  show "rejected_as (validate (\<lambda>d. []) (\<lambda>d. Inl OSError)
      \<lparr>filename = Some ''x.png'', content_type = Some ''image/png'',
       content = [0x89, 0x50, 0x4E, 0x47, 0x0D, 0x0A, 0x1A, 0x0A, 0x00]\<rparr>) = Some CorruptImage"
    by (rule validate_checks_in_order
          [where x = "HTTPException 400 ''Invalid or corrupted image''",
           THEN conjunct2, THEN conjunct2, THEN conjunct2, THEN conjunct2, THEN conjunct1,
           rule_format])
       (simp add: defs)
  show "validate (\<lambda>d. [])
      (\<lambda>d. Inr \<lparr>img_size = (10, 10), img_format = ''PNG'', img_verify = None\<rparr>)
      \<lparr>filename = Some ''x.png'', content_type = Some ''image/png'',
       content = [0x89, 0x50, 0x4E, 0x47, 0x0D, 0x0A, 0x1A, 0x0A, 0x00]\<rparr> =
     Inr \<lparr>ext = ''.png'', mime = ''image/png'',
          bytes = [0x89, 0x50, 0x4E, 0x47, 0x0D, 0x0A, 0x1A, 0x0A, 0x00], sha256 = [],
          width = 10, height = 10, format = ''png''\<rparr>"
    using validate_checks_in_order
          [where w = 10 and h = 10 and fmt = "''png''"
             and D = "\<lambda>d. Inr \<lparr>img_size = (10, 10), img_format = ''PNG'', img_verify = None\<rparr>"
             and H = "\<lambda>d. []"
             and f = "\<lparr>filename = Some ''x.png'', content_type = Some ''image/png'',
                content = [0x89, 0x50, 0x4E, 0x47, 0x0D, 0x0A, 0x1A, 0x0A, 0x00]\<rparr>",
           THEN conjunct2, THEN conjunct2, THEN conjunct2, THEN conjunct2, THEN conjunct2,
           THEN conjunct1]
    by (simp add: defs)
qed

lemma get_ext_broken_png: "get_ext ''broken.png'' = ''.png''"
  by code_simp

text \<open>
  C4, on the code: an input on which the validator does neither of the two things the
  claim allows. The upload is named \<^verbatim>\<open>broken.png\<close>, declared \<^verbatim>\<open>image/png\<close>, and starts
  with the PNG signature, so the first four checks pass; it is a PNG whose data chunk
  carries a wrong checksum, on which \<^verbatim>\<open>verify()\<close> raises a \<^verbatim>\<open>SyntaxError\<close>. No \<^verbatim>\<open>except\<close>
  clause of \<^verbatim>\<open>pil_validate\<close> names that class, so \<^verbatim>\<open>validate\<close> ends with the
  \<^verbatim>\<open>SyntaxError\<close>: it returns no validated upload and fails with none of the five
  rejections.
\<close>

theorem broken_png_escapes_validate:
  "validate toy_digest decoder_bad_checksum
     (make_upload ''broken.png'' png_payload ''image/png'') = Inl (Uncaught SyntaxError) \<and>
   rejected_as
     (validate toy_digest decoder_bad_checksum
        (make_upload ''broken.png'' png_payload ''image/png'')) = None"
  by (simp add: validate_unfold make_upload_def py_or_def get_ext_broken_png lower_image_png
      ALLOWED_EXTENSIONS_def ALLOWED_MIME_def png_payload_def match_signature_png
      pil_validate_def decoder_bad_checksum_def pil_handler_def rejected_as_def
      rejection_of_def)

text \<open>
  The guard of \<^verbatim>\<open>pil_validate\<close>, on an image that \<^verbatim>\<open>Image.open\<close> returns. When the
  dimensions read from the header multiply to more than the pixel ceiling (50,000,000 in
  \<open>validate\<close>), \<open>pil_validate\<close> returns the sentinel \<open>(0, 0, '''')\<close> whatever \<^verbatim>\<open>verify()\<close> would
  do on the image: it is not called. At or below the ceiling the image is verified: its
  dimensions and lower-cased format are returned when \<^verbatim>\<open>verify()\<close> returns, and an
  \<^verbatim>\<open>UnidentifiedImageError\<close> or an \<^verbatim>\<open>OSError\<close> of \<^verbatim>\<open>Image.open\<close> or of \<^verbatim>\<open>verify()\<close> becomes the
  400 ``Invalid or corrupted image''.
\<close>

lemma decompression_bomb_guard:
  "(D d = Inr img \<and> img_size img = (w, h) \<and> w * h > max_pixels \<longrightarrow>
      pil_validate D d max_pixels = Inr (0, 0, '''') \<and>
      pil_validate (\<lambda>x. Inr (img\<lparr>img_verify := v\<rparr>)) d max_pixels = Inr (0, 0, '''')) \<and>
   (D d = Inr img \<and> img_size img = (w, h) \<and> w * h \<le> max_pixels \<and>
    img_verify img = None \<longrightarrow>
      pil_validate D d max_pixels = Inr (w, h, lower (img_format img))) \<and>
   (D d = Inr img \<and> img_size img = (w, h) \<and> w * h \<le> max_pixels \<and>
    img_verify img = Some e \<and> (e = UnidentifiedImageError \<or> e = OSError) \<longrightarrow>
      pil_validate D d max_pixels = Inl (HTTPException 400 ''Invalid or corrupted image'')) \<and>
   (D d = Inl e \<and> (e = UnidentifiedImageError \<or> e = OSError) \<longrightarrow>
      pil_validate D d max_pixels = Inl (HTTPException 400 ''Invalid or corrupted image'')) \<and>
   (get_ext (py_or (filename f) '''') \<in> ALLOWED_EXTENSIONS \<and>
    lower (py_or (content_type f) '''') \<in> ALLOWED_MIME \<and> content f \<noteq> [] \<and>
    match_signature (lower (py_or (content_type f) '''')) (content f) \<longrightarrow>
      (case pil_validate D (content f) 50000000 of
         Inl x \<Rightarrow> validate H D f = Inl x
       | Inr (w', h', fmt) \<Rightarrow>
           map_sum id (\<lambda>u. (width u, height u, format u)) (validate H D f) =
             Inr (w', h', fmt)))"
  by (auto simp: pil_validate_def pil_handler_def validate_unfold
      split: sum.splits prod.splits)

text \<open>
  A header of 10000 by 10000 pixels whose \<^verbatim>\<open>verify()\<close> would raise gives the sentinel;
  one of 7000 by 7000 is verified, and is returned or refused by that verdict.
\<close>

lemma decompression_bomb_guard_samples:
  "pil_validate
     (\<lambda>d. Inr \<lparr>img_size = (10000, 10000), img_format = ''PNG'', img_verify = Some OSError\<rparr>)
     [0x89] 50000000 = Inr (0, 0, '''') \<and>
   pil_validate
     (\<lambda>d. Inr \<lparr>img_size = (7000, 7000), img_format = ''PNG'', img_verify = None\<rparr>)
     [0x89] 50000000 = Inr (7000, 7000, ''png'') \<and>
   pil_validate
     (\<lambda>d. Inr \<lparr>img_size = (7000, 7000), img_format = ''PNG'', img_verify = Some OSError\<rparr>)
     [0x89] 50000000 = Inl (HTTPException 400 ''Invalid or corrupted image'') \<and>
   pil_validate (\<lambda>d. Inl UnidentifiedImageError) [0x89] 50000000 =
     Inl (HTTPException 400 ''Invalid or corrupted image'')"
proof (intro conjI)
  show "pil_validate
     (\<lambda>d. Inr \<lparr>img_size = (10000, 10000), img_format = ''PNG'', img_verify = Some OSError\<rparr>)
     [0x89] 50000000 = Inr (0, 0, '''')"
    using decompression_bomb_guard
      [where D = "\<lambda>d. Inr \<lparr>img_size = (10000, 10000), img_format = ''PNG'',
                             img_verify = Some OSError\<rparr>"
         and d = "[0x89]" and w = 10000 and h = 10000 and max_pixels = 50000000
         and img = "\<lparr>img_size = (10000, 10000), img_format = ''PNG'',
                      img_verify = Some OSError\<rparr>",
       THEN conjunct1]
    by simp
  show "pil_validate
     (\<lambda>d. Inr \<lparr>img_size = (7000, 7000), img_format = ''PNG'', img_verify = None\<rparr>)
     [0x89] 50000000 = Inr (7000, 7000, ''png'')"
    using decompression_bomb_guard
      [where D = "\<lambda>d. Inr \<lparr>img_size = (7000, 7000), img_format = ''PNG'',
                             img_verify = None\<rparr>"
         and d = "[0x89]" and w = 7000 and h = 7000 and max_pixels = 50000000
         and img = "\<lparr>img_size = (7000, 7000), img_format = ''PNG'', img_verify = None\<rparr>",
       THEN conjunct2, THEN conjunct1]
    by (simp add: lower_PNG)
  show "pil_validate
     (\<lambda>d. Inr \<lparr>img_size = (7000, 7000), img_format = ''PNG'', img_verify = Some OSError\<rparr>)
     [0x89] 50000000 = Inl (HTTPException 400 ''Invalid or corrupted image'')"
    using decompression_bomb_guard
      [where D = "\<lambda>d. Inr \<lparr>img_size = (7000, 7000), img_format = ''PNG'',
                             img_verify = Some OSError\<rparr>"
         and d = "[0x89]" and w = 7000 and h = 7000 and max_pixels = 50000000
         and e = OSError
         and img = "\<lparr>img_size = (7000, 7000), img_format = ''PNG'',
                      img_verify = Some OSError\<rparr>",
       THEN conjunct2, THEN conjunct2, THEN conjunct1]
    by simp
  show "pil_validate (\<lambda>d. Inl UnidentifiedImageError) [0x89] 50000000 =
     Inl (HTTPException 400 ''Invalid or corrupted image'')"
    using decompression_bomb_guard
      [where D = "\<lambda>d. Inl UnidentifiedImageError" and d = "[0x89]"
         and max_pixels = 50000000 and e = UnidentifiedImageError,
       THEN conjunct2, THEN conjunct2, THEN conjunct2, THEN conjunct1]
    by simp
qed

lemma header_size_huge: "header_size huge_header_png = (20000, 20000)"
  by (simp add: header_size_def huge_header_png_def be32_def)

lemma header_size_large: "header_size large_header_png = (10000, 6000)"
  by (simp add: header_size_def large_header_png_def be32_def)

lemma large_header_gives_sentinel:
  "pil_validate decoder_png_header large_header_png 50000000 = Inr (0, 0, '''')"
  by (simp add: pil_validate_def decoder_png_header_def header_size_large
      MAX_IMAGE_PIXELS_def)

text \<open>
  C6, on the code: two payloads on which \<^verbatim>\<open>pil_validate\<close> does not do what the claim
  says. A PNG whose header declares 20000 by 20000 pixels is above the ceiling of
  50,000,000, yet the result is not the sentinel: \<^verbatim>\<open>Image.open\<close> itself raises a
  \<^verbatim>\<open>DecompressionBombError\<close> before the guard of \<^verbatim>\<open>pil_validate\<close> is reached, and no
  \<^verbatim>\<open>except\<close> clause names that class. A PNG of 10 by 10 pixels, below the ceiling, whose
  data chunk carries a wrong checksum is verified, and the \<^verbatim>\<open>SyntaxError\<close> that \<^verbatim>\<open>verify()\<close>
  raises is not turned into the 400 ``Invalid or corrupted image'' either.
\<close>

theorem huge_header_escapes_guard:
  "header_size huge_header_png = (20000, 20000) \<and>
   pil_validate decoder_png_header huge_header_png 50000000 =
     Inl (Uncaught DecompressionBombError) \<and>
   pil_validate decoder_bad_checksum png_payload 50000000 = Inl (Uncaught SyntaxError)"
  by (simp add: pil_validate_def decoder_png_header_def header_size_huge
      MAX_IMAGE_PIXELS_def decoder_bad_checksum_def pil_handler_def)




lemma pil_validate_10x10:
  "pil_validate (decoder_10x10 fmt) d 50000000 = Inr (10, 10, lower fmt)"
  by (simp add: pil_validate_def decoder_10x10_def)

lemma validate_png_named:
  "get_ext name = ''.png'' \<Longrightarrow>
   validate H (decoder_10x10 ''PNG'') (make_upload name png_payload ''image/png'') =
     Inr \<lparr>ext = ''.png'', mime = ''image/png'', bytes = png_payload,
          sha256 = H png_payload, width = 10, height = 10, format = ''png''\<rparr>"
  by (simp add: validate_unfold make_upload_def py_or_def lower_image_png
      ALLOWED_EXTENSIONS_def ALLOWED_MIME_def match_signature_png pil_validate_10x10 lower_PNG)
     (auto simp add: png_payload_def)


lemma get_ext_a_png: "get_ext ''a.png'' = ''.png''"
  by code_simp

lemma get_ext_b_png: "get_ext ''b.png'' = ''.png''"
  by code_simp


lemma split_slash_nonempty: "split_slash p \<noteq> []"
  by (induction p) (auto split: list.splits)

lemma split_slash_no_slash: "CHR ''/'' \<notin> set q \<Longrightarrow> split_slash q = [q]"
  by (induction q) (auto split: list.splits)

lemma split_slash_append:
  "CHR ''/'' \<notin> set q \<Longrightarrow>
   split_slash (p @ q) = butlast (split_slash p) @ [last (split_slash p) @ q]"
proof (induction p)
  case Nil
  then show ?case by (simp add: split_slash_no_slash)
next
  case (Cons c p)
  then show ?case
    using split_slash_nonempty [of p]
    by (cases "split_slash p") (auto split: list.splits)
qed

lemma last_split_slash_nonempty:
  "p \<noteq> [] \<Longrightarrow> last p \<noteq> CHR ''/'' \<Longrightarrow> last (split_slash p) \<noteq> []"
proof (induction p)
  case Nil
  then show ?case by simp
next
  case (Cons c p)
  then show ?case
    using split_slash_nonempty [of p]
    by (cases "split_slash p") (auto split: list.splits if_splits)
qed

lemma path_name_with_extension:
  assumes "p \<noteq> []" and "last p \<noteq> CHR ''/''" and "CHR ''/'' \<notin> set e" and "e \<noteq> []"
  shows "path_name (p @ CHR ''.'' # e) = last (split_slash p) @ CHR ''.'' # e"
proof -
  let ?l = "last (split_slash p)"
  have "CHR ''/'' \<notin> set (CHR ''.'' # e)"
    using assms(3) by simp
  then have "split_slash (p @ CHR ''.'' # e) = butlast (split_slash p) @ [?l @ CHR ''.'' # e]"
    by (rule split_slash_append)
  moreover have "?l @ CHR ''.'' # e \<noteq> ''.''"
    using assms(4) by (cases ?l) auto
  ultimately have "filter (\<lambda>c. c \<noteq> [] \<and> c \<noteq> ''.'') (split_slash (p @ CHR ''.'' # e)) =
      filter (\<lambda>c. c \<noteq> [] \<and> c \<noteq> ''.'') (butlast (split_slash p)) @ [?l @ CHR ''.'' # e]"
    by simp
  moreover have "(case xs @ [x] of [] \<Rightarrow> [] | c # cs \<Rightarrow> last (c # cs)) = x"
    for xs :: "string list" and x
  proof -
    obtain c cs where e: "xs @ [x] = c # cs"
      by (cases "xs @ [x]") simp_all
    have "last (c # cs) = x"
      by (metis e last_snoc)
    then show ?thesis
      by (simp only: e list.case)
  qed
  ultimately show ?thesis
    by (simp only: path_name_def)
qed

lemma path_suffix_with_extension:
  assumes "p \<noteq> []" and "last p \<noteq> CHR ''/''" and "CHR ''/'' \<notin> set e"
    and "CHR ''.'' \<notin> set e" and "e \<noteq> []"
  shows "path_suffix (p @ CHR ''.'' # e) = CHR ''.'' # e"
proof -
  let ?l = "last (split_slash p)"
  have name: "path_name (p @ CHR ''.'' # e) = ?l @ CHR ''.'' # e"
    using assms(1,2,3,5) by (rule path_name_with_extension)
  have l: "?l \<noteq> []"
    using assms(1,2) by (rule last_split_slash_nonempty)
  have "\<forall>x \<in> set e. x \<noteq> CHR ''.''"
    using assms(4) by blast
  then have "takeWhile (\<lambda>c. c \<noteq> CHR ''.'') (rev (?l @ CHR ''.'' # e)) = rev e"
    by (simp add: takeWhile_tail takeWhile_eq_all_conv)
  with l assms(5) show ?thesis
    by (simp add: path_suffix_def name Let_def)
qed

lemma lower_dot_jpg: "lower ''.jpg'' = ''.jpg''"
  by code_simp

lemma lower_dot_png: "lower ''.png'' = ''.png''"
  by code_simp

lemma get_ext_named_jpg:
  "stem \<noteq> [] \<Longrightarrow> last stem \<noteq> CHR ''/'' \<Longrightarrow> get_ext (stem @ ''.jpg'') = ''.jpg''"
  using path_suffix_with_extension [of stem "''jpg''"]
  by (simp add: get_ext_def lower_dot_jpg)

lemma get_ext_named_png:
  "stem \<noteq> [] \<Longrightarrow> last stem \<noteq> CHR ''/'' \<Longrightarrow> get_ext (stem @ ''.png'') = ''.png''"
  using path_suffix_with_extension [of stem "''png''"]
  by (simp add: get_ext_def lower_dot_png)

text \<open>
  C10. The extension and the declared MIME type are each checked against their own
  allowed set and never against each other. A payload that starts with the PNG
  signature, declared \<^verbatim>\<open>image/png\<close>, under a file name that ends in \<^verbatim>\<open>.jpg\<close> (after a
  non-empty stem that does not end in a slash) is validated when the decoder accepts the
  bytes, and the result carries the mismatched pair; so is a payload that starts with
  the JPEG signature, declared \<^verbatim>\<open>image/jpeg\<close>, under a name that ends in \<^verbatim>\<open>.png\<close>. The
  same holds for any file name from which \<open>get_ext\<close> derives \<^verbatim>\<open>.jpg\<close> or \<^verbatim>\<open>.png\<close> and any
  content type that lower-cases to the MIME type.
\<close>

theorem extension_and_mime_not_cross_checked:
  "(filename f = Some (stem @ ''.jpg'') \<and> stem \<noteq> [] \<and> last stem \<noteq> CHR ''/'' \<and>
    content_type f = Some ''image/png'' \<and>
    prefix [0x89, 0x50, 0x4E, 0x47, 0x0D, 0x0A, 0x1A, 0x0A] (content f) \<and>
    pil_validate D (content f) 50000000 = Inr (w, h, fmt) \<longrightarrow>
      validate H D f =
        Inr \<lparr>ext = ''.jpg'', mime = ''image/png'', bytes = content f,
             sha256 = H (content f), width = w, height = h, format = fmt\<rparr>) \<and>
   (filename f = Some (stem @ ''.png'') \<and> stem \<noteq> [] \<and> last stem \<noteq> CHR ''/'' \<and>
    content_type f = Some ''image/jpeg'' \<and>
    prefix [0xFF, 0xD8, 0xFF] (content f) \<and>
    pil_validate D (content f) 50000000 = Inr (w, h, fmt) \<longrightarrow>
      validate H D f =
        Inr \<lparr>ext = ''.png'', mime = ''image/jpeg'', bytes = content f,
             sha256 = H (content f), width = w, height = h, format = fmt\<rparr>) \<and>
   (get_ext (py_or (filename f) '''') = ''.jpg'' \<and>
    lower (py_or (content_type f) '''') = ''image/png'' \<and>
    prefix [0x89, 0x50, 0x4E, 0x47, 0x0D, 0x0A, 0x1A, 0x0A] (content f) \<and>
    pil_validate D (content f) 50000000 = Inr (w, h, fmt) \<longrightarrow>
      validate H D f =
        Inr \<lparr>ext = ''.jpg'', mime = ''image/png'', bytes = content f,
             sha256 = H (content f), width = w, height = h, format = fmt\<rparr>) \<and>
   (get_ext (py_or (filename f) '''') = ''.png'' \<and>
    lower (py_or (content_type f) '''') = ''image/jpeg'' \<and>
    prefix [0xFF, 0xD8, 0xFF] (content f) \<and>
    pil_validate D (content f) 50000000 = Inr (w, h, fmt) \<longrightarrow>
      validate H D f =
        Inr \<lparr>ext = ''.png'', mime = ''image/jpeg'', bytes = content f,
             sha256 = H (content f), width = w, height = h, format = fmt\<rparr>)"
proof -
  have ne: "content f \<noteq> []" if "prefix (x # xs) (content f)" for x xs
    using that by auto
  have by_ext: "validate H D f =
        Inr \<lparr>ext = e, mime = m, bytes = content f,
             sha256 = H (content f), width = w, height = h, format = fmt\<rparr>"
    if "get_ext (py_or (filename f) '''') = e" and "e \<in> ALLOWED_EXTENSIONS"
      and "lower (py_or (content_type f) '''') = m" and "m \<in> ALLOWED_MIME"
      and "content f \<noteq> []" and "match_signature m (content f)"
      and "pil_validate D (content f) 50000000 = Inr (w, h, fmt)" for e m
    using that by (simp add: validate_unfold)
  have jpg: "get_ext (py_or (filename f) '''') = ''.jpg''"
    if "filename f = Some (stem @ ''.jpg'')" and "stem \<noteq> []" and "last stem \<noteq> CHR ''/''"
    using that by (simp add: py_or_def get_ext_named_jpg)
  have png: "get_ext (py_or (filename f) '''') = ''.png''"
    if "filename f = Some (stem @ ''.png'')" and "stem \<noteq> []" and "last stem \<noteq> CHR ''/''"
    using that by (simp add: py_or_def get_ext_named_png)
  have ct: "lower (py_or (content_type f) '''') = ''image/png''"
    if "content_type f = Some ''image/png''"
    using that by (simp add: py_or_def lower_image_png)
  have cj: "lower (py_or (content_type f) '''') = ''image/jpeg''"
    if "content_type f = Some ''image/jpeg''"
    using that by (simp add: py_or_def lower_image_jpeg)
  have a: "''.jpg'' \<in> ALLOWED_EXTENSIONS" "''.png'' \<in> ALLOWED_EXTENSIONS"
    "''image/png'' \<in> ALLOWED_MIME" "''image/jpeg'' \<in> ALLOWED_MIME"
    by (simp_all add: ALLOWED_EXTENSIONS_def ALLOWED_MIME_def)
  show ?thesis
  proof (intro conjI impI; elim conjE)
    assume "filename f = Some (stem @ ''.jpg'')" "stem \<noteq> []" "last stem \<noteq> CHR ''/''"
      "content_type f = Some ''image/png''"
      "prefix [0x89, 0x50, 0x4E, 0x47, 0x0D, 0x0A, 0x1A, 0x0A] (content f)"
      "pil_validate D (content f) 50000000 = Inr (w, h, fmt)"
    then show "validate H D f =
        Inr \<lparr>ext = ''.jpg'', mime = ''image/png'', bytes = content f,
             sha256 = H (content f), width = w, height = h, format = fmt\<rparr>"
      by (intro by_ext jpg ct a ne) (simp_all add: match_signature_png)
  next
    assume "filename f = Some (stem @ ''.png'')" "stem \<noteq> []" "last stem \<noteq> CHR ''/''"
      "content_type f = Some ''image/jpeg''"
      "prefix [0xFF, 0xD8, 0xFF] (content f)"
      "pil_validate D (content f) 50000000 = Inr (w, h, fmt)"
    then show "validate H D f =
        Inr \<lparr>ext = ''.png'', mime = ''image/jpeg'', bytes = content f,
             sha256 = H (content f), width = w, height = h, format = fmt\<rparr>"
      by (intro by_ext png cj a ne) (simp_all add: match_signature_jpeg)
  next
    assume "get_ext (py_or (filename f) '''') = ''.jpg''"
      "lower (py_or (content_type f) '''') = ''image/png''"
      "prefix [0x89, 0x50, 0x4E, 0x47, 0x0D, 0x0A, 0x1A, 0x0A] (content f)"
      "pil_validate D (content f) 50000000 = Inr (w, h, fmt)"
    then show "validate H D f =
        Inr \<lparr>ext = ''.jpg'', mime = ''image/png'', bytes = content f,
             sha256 = H (content f), width = w, height = h, format = fmt\<rparr>"
      by (intro by_ext a ne) (simp_all add: match_signature_png)
  next
    assume "get_ext (py_or (filename f) '''') = ''.png''"
      "lower (py_or (content_type f) '''') = ''image/jpeg''"
      "prefix [0xFF, 0xD8, 0xFF] (content f)"
      "pil_validate D (content f) 50000000 = Inr (w, h, fmt)"
    then show "validate H D f =
        Inr \<lparr>ext = ''.png'', mime = ''image/jpeg'', bytes = content f,
             sha256 = H (content f), width = w, height = h, format = fmt\<rparr>"
      by (intro by_ext a ne) (simp_all add: match_signature_jpeg)
  qed
qed

text \<open>
  The PNG payload as \<^verbatim>\<open>photo.jpg\<close> and the JPEG payload as \<^verbatim>\<open>x.png\<close>, each with the
  content type of its bytes.
\<close>

theorem extension_and_mime_not_cross_checked_witness:
  "validate toy_digest (decoder_10x10 ''PNG'')
     (make_upload ''photo.jpg'' png_payload ''image/png'') =
     Inr \<lparr>ext = ''.jpg'', mime = ''image/png'', bytes = png_payload,
          sha256 = toy_digest png_payload, width = 10, height = 10, format = ''png''\<rparr> \<and>
   validate toy_digest (decoder_10x10 ''JPEG'')
     (make_upload ''x.png'' jpeg_payload ''image/jpeg'') =
     Inr \<lparr>ext = ''.png'', mime = ''image/jpeg'', bytes = jpeg_payload,
          sha256 = toy_digest jpeg_payload, width = 10, height = 10, format = ''jpeg''\<rparr>"
proof
  have "filename (make_upload ''photo.jpg'' png_payload ''image/png'') = Some (''photo'' @ ''.jpg'')"
    and "content_type (make_upload ''photo.jpg'' png_payload ''image/png'') = Some ''image/png''"
    and "content (make_upload ''photo.jpg'' png_payload ''image/png'') = png_payload"
    and "prefix [0x89, 0x50, 0x4E, 0x47, 0x0D, 0x0A, 0x1A, 0x0A] png_payload"
    by (simp_all add: make_upload_def png_payload_def)
  then show "validate toy_digest (decoder_10x10 ''PNG'')
     (make_upload ''photo.jpg'' png_payload ''image/png'') =
     Inr \<lparr>ext = ''.jpg'', mime = ''image/png'', bytes = png_payload,
          sha256 = toy_digest png_payload, width = 10, height = 10, format = ''png''\<rparr>"
    using extension_and_mime_not_cross_checked
      [of "make_upload ''photo.jpg'' png_payload ''image/png''" "''photo''"
         "decoder_10x10 ''PNG''" 10 10 "''png''" toy_digest, THEN conjunct1]
    by (simp add: pil_validate_10x10 lower_PNG)
  have "filename (make_upload ''x.png'' jpeg_payload ''image/jpeg'') = Some (''x'' @ ''.png'')"
    and "content_type (make_upload ''x.png'' jpeg_payload ''image/jpeg'') = Some ''image/jpeg''"
    and "content (make_upload ''x.png'' jpeg_payload ''image/jpeg'') = jpeg_payload"
    and "prefix [0xFF, 0xD8, 0xFF] jpeg_payload"
    by (simp_all add: make_upload_def jpeg_payload_def)
  then show "validate toy_digest (decoder_10x10 ''JPEG'')
     (make_upload ''x.png'' jpeg_payload ''image/jpeg'') =
     Inr \<lparr>ext = ''.png'', mime = ''image/jpeg'', bytes = jpeg_payload,
          sha256 = toy_digest jpeg_payload, width = 10, height = 10, format = ''jpeg''\<rparr>"
    using extension_and_mime_not_cross_checked
      [of "make_upload ''x.png'' jpeg_payload ''image/jpeg''" "''x''"
         "decoder_10x10 ''JPEG''" 10 10 "''jpeg''" toy_digest, THEN conjunct2, THEN conjunct1]
    by (simp add: pil_validate_10x10 lower_JPEG)
qed

section \<open>Properties of the upload path\<close>

lemma upload_img_cases:
  "upload_img H D c s =
     (case validate H D (c_file c) of
        Inl (HTTPException code detail) \<Rightarrow>
          record_rejected c (c_uuid c) (py_or (filename (c_file c)) ''upload'') detail s
      | Inl (Uncaught e) \<Rightarrow> (Inl (Uncaught e), s)
      | Inl IntegrityError \<Rightarrow> (Inl IntegrityError, s)
      | Inr v \<Rightarrow>
          if \<not> c_write_ok c
          then
            (if \<not> c_unlink_ok c then (Inl (Uncaught OSError), s)
             else (Inl (HTTPException 500 ''Failed to save image''),
                   s\<lparr>files := (files s)(destination c := None)\<rparr>))
          else record_accepted c (c_uuid c) (py_or (filename (c_file c)) ''upload'')
                 (destination c) v (s\<lparr>files := (files s)(destination c \<mapsto> bytes v)\<rparr>))"
  by (simp add: upload_img_def destination_def Let_def split: sum.splits exn.splits)

lemma record_rejected_fresh:
  assumes "fresh image_id s"
  shows "record_rejected c image_id name msg s =
     (Inr (build_item (c_base_url c) ''failed'' image_id name (c_now c) (Some msg) None),
      s\<lparr>images := images s @
           [\<lparr>i_image_id = image_id, i_original_name = name, i_processed_at = c_now c,
             i_image_path = None, i_metadata_sha256 = None, i_error = Some msg\<rparr>],
        stats := stats s @
           [\<lparr>s_image_id = image_id, s_start_time = c_now c, s_end_time = None,
             s_status = 0\<rparr>]\<rparr>)"
  using assms
  by (simp add: record_rejected_def insert_images_def insert_stats_def fresh_def)

lemma record_accepted_fresh:
  assumes "fresh image_id s"
  shows "record_accepted c image_id name path v s =
     (Inr (build_item (c_base_url c) ''success'' image_id name (c_now c) None
            (Some \<lparr>r_width = width v, r_height = height v, r_format = format v,
                   r_size_bytes = length (bytes v), r_sha256 = sha256 v,
                   r_first_upload = c_now c\<rparr>)),
      s\<lparr>queue :=
           (if sha256 v \<in> set (map m_sha256 (metadata s)) then queue s
            else fst (enqueue_each (queue s) (three_jobs (sha256 v) path image_id))),
        log :=
           (if sha256 v \<notin> set (map m_sha256 (metadata s)) \<and>
               snd (enqueue_each (queue s) (three_jobs (sha256 v) path image_id))
            then log s @ [''failed_to_enqueue''] else log s),
        metadata :=
           (if sha256 v \<in> set (map m_sha256 (metadata s)) then metadata s
            else metadata s @
              [\<lparr>m_sha256 = sha256 v, m_width = width v, m_height = height v,
                m_format = format v, m_size_bytes = length (bytes v),
                m_first_upload = c_now c, m_exif_json = None, m_caption = None\<rparr>]),
        images := images s @
           [\<lparr>i_image_id = image_id, i_original_name = name, i_processed_at = c_now c,
             i_image_path = Some path, i_metadata_sha256 = Some (sha256 v),
             i_error = None\<rparr>],
        stats := stats s @
           [\<lparr>s_image_id = image_id, s_start_time = c_now c, s_end_time = None,
             s_status = 1\<rparr>]\<rparr>)"
  using assms
  by (simp add: record_accepted_def insert_or_ignore_metadata_def insert_images_def
      insert_stats_def fresh_def three_jobs_def Let_def split: prod.splits)

lemma fresh_files [simp]: "fresh i (s\<lparr>files := f\<rparr>) = fresh i s"
  by (simp add: fresh_def)

lemma upload_img_accepted:
  assumes "validate H D (c_file c) = Inr v" and "c_write_ok c" and "fresh (c_uuid c) s"
  shows "upload_img H D c s =
     (Inr (build_item (c_base_url c) ''success'' (c_uuid c)
             (py_or (filename (c_file c)) ''upload'') (c_now c) None
            (Some \<lparr>r_width = width v, r_height = height v, r_format = format v,
                   r_size_bytes = length (bytes v), r_sha256 = sha256 v,
                   r_first_upload = c_now c\<rparr>)),
      s\<lparr>files := (files s)(destination c \<mapsto> bytes v),
        queue :=
           (if sha256 v \<in> set (map m_sha256 (metadata s)) then queue s
            else fst (enqueue_each (queue s)
                        (three_jobs (sha256 v) (destination c) (c_uuid c)))),
        log :=
           (if sha256 v \<notin> set (map m_sha256 (metadata s)) \<and>
               snd (enqueue_each (queue s)
                      (three_jobs (sha256 v) (destination c) (c_uuid c)))
            then log s @ [''failed_to_enqueue''] else log s),
        metadata :=
           (if sha256 v \<in> set (map m_sha256 (metadata s)) then metadata s
            else metadata s @
              [\<lparr>m_sha256 = sha256 v, m_width = width v, m_height = height v,
                m_format = format v, m_size_bytes = length (bytes v),
                m_first_upload = c_now c, m_exif_json = None, m_caption = None\<rparr>]),
        images := images s @
           [\<lparr>i_image_id = c_uuid c,
             i_original_name = py_or (filename (c_file c)) ''upload'',
             i_processed_at = c_now c, i_image_path = Some (destination c),
             i_metadata_sha256 = Some (sha256 v), i_error = None\<rparr>],
        stats := stats s @
           [\<lparr>s_image_id = c_uuid c, s_start_time = c_now c, s_end_time = None,
             s_status = 1\<rparr>]\<rparr>)"
  using assms by (simp add: upload_img_cases record_accepted_fresh)

lemma upload_img_rejected:
  assumes "validate H D (c_file c) = Inl (HTTPException code detail)"
    and "fresh (c_uuid c) s"
  shows "upload_img H D c s =
     (Inr (build_item (c_base_url c) ''failed'' (c_uuid c)
             (py_or (filename (c_file c)) ''upload'') (c_now c) (Some detail) None),
      s\<lparr>images := images s @
           [\<lparr>i_image_id = c_uuid c,
             i_original_name = py_or (filename (c_file c)) ''upload'',
             i_processed_at = c_now c, i_image_path = None, i_metadata_sha256 = None,
             i_error = Some detail\<rparr>],
        stats := stats s @
           [\<lparr>s_image_id = c_uuid c, s_start_time = c_now c, s_end_time = None,
             s_status = 0\<rparr>]\<rparr>)"
  using assms by (simp add: upload_img_cases record_rejected_fresh)

lemma upload_img_write_failed:
  assumes "validate H D (c_file c) = Inr v" and "\<not> c_write_ok c" and "c_unlink_ok c"
  shows "upload_img H D c s =
     (Inl (HTTPException 500 ''Failed to save image''),
      s\<lparr>files := (files s)(destination c := None)\<rparr>)"
  using assms by (simp add: upload_img_cases)

lemma upload_img_unlink_failed:
  assumes "validate H D (c_file c) = Inr v" and "\<not> c_write_ok c" and "\<not> c_unlink_ok c"
  shows "upload_img H D c s = (Inl (Uncaught OSError), s)"
  using assms by (simp add: upload_img_cases)

lemma enqueue_each_jobs:
  "jobs (fst (enqueue_each q js)) =
     jobs q @ (case accepts q of None \<Rightarrow> js | Some k \<Rightarrow> take k js)"
proof (induction js arbitrary: q)
  case Nil
  then show ?case by (simp split: option.splits)
next
  case (Cons j js)
  show ?case
  proof (cases "accepts q")
    case None
    then show ?thesis
      using Cons [of "q\<lparr>jobs := jobs q @ [j]\<rparr>"] by (simp add: enqueue_def)
  next
    case (Some k)
    then show ?thesis
      using Cons [of "q\<lparr>jobs := jobs q @ [j], accepts := Some (k - 1)\<rparr>"]
      by (cases k) (simp_all add: enqueue_def)
  qed
qed

lemma enqueue_each_raised:
  "snd (enqueue_each q js) \<longleftrightarrow> (case accepts q of None \<Rightarrow> False | Some k \<Rightarrow> k < length js)"
proof (induction js arbitrary: q)
  case Nil
  then show ?case by (simp split: option.splits)
next
  case (Cons j js)
  show ?case
  proof (cases "accepts q")
    case None
    then show ?thesis
      using Cons [of "q\<lparr>jobs := jobs q @ [j]\<rparr>"] by (simp add: enqueue_def)
  next
    case (Some k)
    then show ?thesis
      using Cons [of "q\<lparr>jobs := jobs q @ [j], accepts := Some (k - 1)\<rparr>"]
      by (cases k) (simp_all add: enqueue_def)
  qed
qed

lemma no_row_without_key:
  "k \<notin> set (map key rows) \<Longrightarrow> filter (\<lambda>r. key r = k) rows = []"
  by (auto simp: filter_empty_conv)

lemma one_row_per_key:
  "distinct (map key rows) \<Longrightarrow> k \<in> set (map key rows) \<Longrightarrow>
   length (filter (\<lambda>r. key r = k) rows) = 1"
proof (induction rows)
  case Nil
  then show ?case by simp
next
  case (Cons r rows)
  show ?case
  proof (cases "key r = k")
    case True
    with Cons.prems have "k \<notin> set (map key rows)" by auto
    then have "filter (\<lambda>r. key r = k) rows = []" by (rule no_row_without_key)
    with True show ?thesis by simp
  next
    case False
    with Cons show ?thesis by auto
  qed
qed

lemma validated_hash: "validate H D f = Inr v \<Longrightarrow> sha256 v = H (content f)"
  by (auto simp: validate_unfold split: if_splits sum.splits prod.splits)

text \<open>
  C1, as the code has it. Two upload calls that carry the same bytes, both pass
  validation and both store their original, made one after the other with different
  fresh identifiers on a ledger whose metadata keys are distinct (\<^verbatim>\<open>sha256\<close> is the
  primary key of the table): both validations give the same hash; afterwards the
  metadata table holds exactly one row with that hash (the first call adds it when the
  hash is new, the second call adds nothing). The \<^verbatim>\<open>enqueue\<close> calls are made by the first
  call only, and only when its insert found the hash new: the queue then gains the three
  jobs in the order thumbnail, EXIF, caption when it accepts them all, and only those
  before the first \<^verbatim>\<open>enqueue\<close> call that raises otherwise; the second call enqueues
  nothing, so jobs lost in the first call are not made up for. Each call adds its own
  row to \<^verbatim>\<open>images\<close> and to \<^verbatim>\<open>stats\<close> and returns an item.
\<close>

theorem identical_uploads_deduplicated:
  assumes v1: "validate H D (c_file c1) = Inr v1"
    and v2: "validate H D (c_file c2) = Inr v2"
    and same: "content (c_file c1) = content (c_file c2)"
    and w1: "c_write_ok c1" and w2: "c_write_ok c2"
    and ne: "c_uuid c1 \<noteq> c_uuid c2"
    and f1: "fresh (c_uuid c1) s" and f2: "fresh (c_uuid c2) s"
    and pk: "distinct (map m_sha256 (metadata s))"
    and s1: "s1 = snd (upload_img H D c1 s)"
    and s2: "s2 = snd (upload_img H D c2 s1)"
  shows "sha256 v2 = sha256 v1 \<and>
    length (filter (\<lambda>r. m_sha256 r = sha256 v1) (metadata s2)) = 1 \<and>
    (sha256 v1 \<notin> set (map m_sha256 (metadata s)) \<longrightarrow>
       length (metadata s1) = length (metadata s) + 1) \<and>
    (sha256 v1 \<in> set (map m_sha256 (metadata s)) \<longrightarrow> metadata s1 = metadata s) \<and>
    metadata s2 = metadata s1 \<and>
    (sha256 v1 \<notin> set (map m_sha256 (metadata s)) \<longrightarrow>
       jobs (queue s1) =
         jobs (queue s) @
           (case accepts (queue s) of
              None \<Rightarrow> three_jobs (sha256 v1) (destination c1) (c_uuid c1)
            | Some k \<Rightarrow> take k (three_jobs (sha256 v1) (destination c1) (c_uuid c1)))) \<and>
    (sha256 v1 \<in> set (map m_sha256 (metadata s)) \<longrightarrow> jobs (queue s1) = jobs (queue s)) \<and>
    jobs (queue s2) = jobs (queue s1) \<and>
    map i_image_id (images s2) = map i_image_id (images s) @ [c_uuid c1, c_uuid c2] \<and>
    map s_image_id (stats s2) = map s_image_id (stats s) @ [c_uuid c1, c_uuid c2] \<and>
    (\<exists>i1 i2. fst (upload_img H D c1 s) = Inr i1 \<and> fst (upload_img H D c2 s1) = Inr i2)"
proof -
  let ?h = "sha256 v1"
  note u1 = upload_img_accepted [OF v1 w1 f1]
  have h: "sha256 v2 = ?h"
    using validated_hash [OF v1] validated_hash [OF v2] same by simp
  have md1: "metadata s1 =
      (if ?h \<in> set (map m_sha256 (metadata s)) then metadata s
       else metadata s @
         [\<lparr>m_sha256 = ?h, m_width = width v1, m_height = height v1,
           m_format = format v1, m_size_bytes = length (bytes v1),
           m_first_upload = c_now c1, m_exif_json = None, m_caption = None\<rparr>])"
    by (simp add: s1 u1)
  have im1: "map i_image_id (images s1) = map i_image_id (images s) @ [c_uuid c1]"
    and st1: "map s_image_id (stats s1) = map s_image_id (stats s) @ [c_uuid c1]"
    by (simp_all add: s1 u1)
  have q1: "queue s1 =
      (if ?h \<in> set (map m_sha256 (metadata s)) then queue s
       else fst (enqueue_each (queue s) (three_jobs ?h (destination c1) (c_uuid c1))))"
    by (simp add: s1 u1)
  have seen: "sha256 v2 \<in> set (map m_sha256 (metadata s1))"
    by (simp add: md1 h)
  have f2': "fresh (c_uuid c2) s1"
    using f2 ne by (simp add: fresh_def s1 u1)
  note u2 = upload_img_accepted [OF v2 w2 f2']
  have md2: "metadata s2 = metadata s1" and q2: "queue s2 = queue s1"
    using seen by (simp_all add: s2 u2)
  have im2: "map i_image_id (images s2) = map i_image_id (images s) @ [c_uuid c1, c_uuid c2]"
    and st2: "map s_image_id (stats s2) = map s_image_id (stats s) @ [c_uuid c1, c_uuid c2]"
    using im1 st1 by (simp_all add: s2 u2)
  have one: "length (filter (\<lambda>r. m_sha256 r = ?h) (metadata s2)) = 1"
  proof (cases "?h \<in> set (map m_sha256 (metadata s))")
    case True
    with pk show ?thesis
      by (simp add: md2 md1 one_row_per_key)
  next
    case False
    then have "filter (\<lambda>r. m_sha256 r = ?h) (metadata s) = []"
      by (rule no_row_without_key)
    with False show ?thesis
      by (simp add: md2 md1)
  qed
  have enq: "jobs (queue s1) =
      jobs (queue s) @
        (case accepts (queue s) of
           None \<Rightarrow> three_jobs ?h (destination c1) (c_uuid c1)
         | Some k \<Rightarrow> take k (three_jobs ?h (destination c1) (c_uuid c1)))"
    if "?h \<notin> set (map m_sha256 (metadata s))"
    using that by (simp add: q1 enqueue_each_jobs)
  have res: "\<exists>i1 i2. fst (upload_img H D c1 s) = Inr i1 \<and> fst (upload_img H D c2 s1) = Inr i2"
    by (simp add: u1 u2)
  show ?thesis
    using h one md1 md2 q1 q2 im2 st2 enq res by simp
qed

lemma validate_upload_a:
  "validate toy_digest (decoder_10x10 ''PNG'') (c_file upload_a) = Inr png_validated"
  by (simp add: upload_a_def make_call_def png_validated_def validate_png_named get_ext_a_png)

lemma validate_upload_b:
  "validate toy_digest (decoder_10x10 ''PNG'') (c_file upload_b) = Inr png_validated"
  by (simp add: upload_b_def make_call_def png_validated_def validate_png_named get_ext_b_png)

lemma fresh_init: "fresh i init"
  by (simp add: fresh_def init_def)

theorem identical_uploads_deduplicated_witness:
  "length (filter (\<lambda>r. m_sha256 r = sha256 png_validated)
      (metadata (snd (post upload_b (snd (post upload_a init)))))) = 1 \<and>
   jobs (queue (snd (post upload_b (snd (post upload_a init))))) =
     three_jobs (sha256 png_validated) (destination upload_a) ''id1'' \<and>
   map i_image_id (images (snd (post upload_b (snd (post upload_a init))))) =
     [''id1'', ''id2''] \<and>
   map s_image_id (stats (snd (post upload_b (snd (post upload_a init))))) =
     [''id1'', ''id2'']"
proof -
  have same: "content (c_file upload_a) = content (c_file upload_b)"
    by (simp add: upload_a_def upload_b_def make_call_def make_upload_def)
  have ok: "c_write_ok upload_a" "c_write_ok upload_b" "c_uuid upload_a \<noteq> c_uuid upload_b"
    by (simp_all add: upload_a_def upload_b_def make_call_def)
  have ids: "c_uuid upload_a = ''id1''" "c_uuid upload_b = ''id2''"
    by (simp_all add: upload_a_def upload_b_def make_call_def)
  have empty: "metadata init = []" "images init = []" "stats init = []"
    "jobs (queue init) = []" "accepts (queue init) = None"
    by (simp_all add: init_def)
  have pk: "distinct (map m_sha256 (metadata init))"
    by (simp add: empty)
  note t = identical_uploads_deduplicated
    [OF validate_upload_a validate_upload_b same ok fresh_init fresh_init pk,
     of "snd (post upload_a init)" "snd (post upload_b (snd (post upload_a init)))",
     unfolded post_def [symmetric], OF refl refl]
  show ?thesis
    using t by (auto simp add: empty ids)
qed

text \<open>
  Against C1 as stated: the same PNG uploaded twice, both times accepted and stored, on
  a queue whose connection drops after one job. One metadata row and two \<^verbatim>\<open>images\<close> rows
  exist afterwards, but the set of three jobs was never enqueued: the thumbnail job is
  in the queue, the EXIF and caption jobs are not, and the second call did not enqueue
  them either.
\<close>

theorem identical_uploads_jobs_dropped:
  "validate toy_digest (decoder_10x10 ''PNG'') (c_file upload_a) = Inr png_validated \<and>
   validate toy_digest (decoder_10x10 ''PNG'') (c_file upload_b) = Inr png_validated \<and>
   map m_sha256 (metadata (snd (post upload_b (snd (post upload_a dropping_queue))))) =
     [sha256 png_validated] \<and>
   map i_image_id (images (snd (post upload_b (snd (post upload_a dropping_queue))))) =
     [''id1'', ''id2''] \<and>
   jobs (queue (snd (post upload_a dropping_queue))) =
     [Thumbnail_job (sha256 png_validated) (destination upload_a)] \<and>
   jobs (queue (snd (post upload_b (snd (post upload_a dropping_queue))))) =
     [Thumbnail_job (sha256 png_validated) (destination upload_a)]"
proof -
  have a: "c_uuid upload_a = ''id1''" "c_write_ok upload_a"
    and b: "c_uuid upload_b = ''id2''" "c_write_ok upload_b"
    by (simp_all add: upload_a_def upload_b_def make_call_def)
  have st: "metadata dropping_queue = []" "images dropping_queue = []"
    "stats dropping_queue = []" "jobs (queue dropping_queue) = []"
    "accepts (queue dropping_queue) = Some 1"
    by (simp_all add: dropping_queue_def init_def)
  have f1: "fresh (c_uuid upload_a) dropping_queue"
    by (simp add: fresh_def st)
  define s1 where "s1 = snd (post upload_a dropping_queue)"
  note u1 = upload_img_accepted [OF validate_upload_a a(2) f1]
  have m1: "map m_sha256 (metadata s1) = [sha256 png_validated]"
    and i1: "map i_image_id (images s1) = [''id1'']"
    and t1: "map s_image_id (stats s1) = [''id1'']"
    by (simp_all add: s1_def post_def u1 a st)
  have "jobs (queue s1) =
      take 1 (three_jobs (sha256 png_validated) (destination upload_a) ''id1'')"
    by (simp add: s1_def post_def u1 a st enqueue_each_jobs)
  then have q1: "jobs (queue s1) =
      [Thumbnail_job (sha256 png_validated) (destination upload_a)]"
    by (simp add: three_jobs_def)
  have f2: "fresh (c_uuid upload_b) s1"
    using i1 t1 by (simp add: fresh_def b)
  note u2 = upload_img_accepted [OF validate_upload_b b(2) f2]
  have seen: "sha256 png_validated \<in> set (map m_sha256 (metadata s1))"
    by (simp add: m1)
  have m2: "map m_sha256 (metadata (snd (post upload_b s1))) = [sha256 png_validated]"
    and q2: "jobs (queue (snd (post upload_b s1))) =
      [Thumbnail_job (sha256 png_validated) (destination upload_a)]"
    using seen m1 q1 by (simp_all add: post_def u2)
  have i2: "map i_image_id (images (snd (post upload_b s1))) = [''id1'', ''id2'']"
    using i1 by (simp add: post_def u2 b)
  show ?thesis
    using m2 i2 q1 q2 validate_upload_a validate_upload_b
    unfolding s1_def by (intro conjI)
qed

lemma length_three_jobs: "length (three_jobs sha image_path image_id) = 3"
  by (simp add: three_jobs_def)

text \<open>
  C9. An accepted upload of new content on which an \<^verbatim>\<open>enqueue\<close> call raises (the queue
  takes fewer than three more jobs): the handler logs the failure and goes on. The call
  returns a success item, the metadata row is inserted and stays, the \<^verbatim>\<open>images\<close> and
  \<^verbatim>\<open>stats\<close> rows are recorded, and the jobs enqueued before the failing call stay
  enqueued.
\<close>

theorem enqueue_failure_not_fatal:
  assumes v: "validate H D (c_file c) = Inr v"
    and w: "c_write_ok c"
    and f: "fresh (c_uuid c) s"
    and new: "sha256 v \<notin> set (map m_sha256 (metadata s))"
    and drops: "accepts (queue s) = Some k" "k < 3"
    and s': "s' = snd (upload_img H D c s)"
  shows "snd (enqueue_each (queue s) (three_jobs (sha256 v) (destination c) (c_uuid c))) \<and>
    (\<exists>it. fst (upload_img H D c s) = Inr it \<and> r_status it = ''success'' \<and>
       r_error it = None) \<and>
    map m_sha256 (metadata s') = map m_sha256 (metadata s) @ [sha256 v] \<and>
    images s' = images s @
      [\<lparr>i_image_id = c_uuid c, i_original_name = py_or (filename (c_file c)) ''upload'',
        i_processed_at = c_now c, i_image_path = Some (destination c),
        i_metadata_sha256 = Some (sha256 v), i_error = None\<rparr>] \<and>
    stats s' = stats s @
      [\<lparr>s_image_id = c_uuid c, s_start_time = c_now c, s_end_time = None, s_status = 1\<rparr>] \<and>
    jobs (queue s') =
      jobs (queue s) @ take k (three_jobs (sha256 v) (destination c) (c_uuid c)) \<and>
    log s' = log s @ [''failed_to_enqueue'']"
proof -
  note u = upload_img_accepted [OF v w f]
  have raised: "snd (enqueue_each (queue s) (three_jobs (sha256 v) (destination c) (c_uuid c)))"
    using drops by (simp add: enqueue_each_raised length_three_jobs)
  moreover have "\<exists>it. fst (upload_img H D c s) = Inr it \<and> r_status it = ''success'' \<and>
       r_error it = None"
    by (simp add: u build_item_def Let_def)
  moreover have "jobs (queue s') =
      jobs (queue s) @ take k (three_jobs (sha256 v) (destination c) (c_uuid c))"
    using new drops by (simp add: s' u enqueue_each_jobs)
  moreover have "log s' = log s @ [''failed_to_enqueue'']"
    using new raised by (simp add: s' u)
  ultimately show ?thesis
    using new by (simp add: s' u)
qed

lemma fresh_dropping_queue: "fresh i dropping_queue"
  by (simp add: fresh_def dropping_queue_def init_def)

theorem enqueue_failure_not_fatal_witness:
  "(\<exists>it. fst (post upload_a dropping_queue) = Inr it \<and> r_status it = ''success'' \<and>
      r_error it = None) \<and>
   map m_sha256 (metadata (snd (post upload_a dropping_queue))) = [sha256 png_validated] \<and>
   map i_image_id (images (snd (post upload_a dropping_queue))) = [''id1''] \<and>
   map s_image_id (stats (snd (post upload_a dropping_queue))) = [''id1''] \<and>
   jobs (queue (snd (post upload_a dropping_queue))) =
     [Thumbnail_job (sha256 png_validated) (destination upload_a)] \<and>
   log (snd (post upload_a dropping_queue)) = [''failed_to_enqueue'']"
proof -
  have ok: "c_write_ok upload_a" and id: "c_uuid upload_a = ''id1''"
    by (simp_all add: upload_a_def make_call_def)
  have st: "metadata dropping_queue = []" "images dropping_queue = []"
    "stats dropping_queue = []" "jobs (queue dropping_queue) = []"
    "log dropping_queue = []"
    by (simp_all add: dropping_queue_def init_def)
  have new: "sha256 png_validated \<notin> set (map m_sha256 (metadata dropping_queue))"
    by (simp add: st)
  have drops: "accepts (queue dropping_queue) = Some 1" "(1::nat) < 3"
    by (simp_all add: dropping_queue_def)
  note t = enqueue_failure_not_fatal
    [OF validate_upload_a ok fresh_dropping_queue new drops,
     of "snd (post upload_a dropping_queue)", unfolded post_def [symmetric], OF refl]
  show ?thesis
    using t by (auto simp add: st id three_jobs_def)
qed

text \<open>
  C8, as the code has it. An upload call that the validator rejects with one of its
  \<^verbatim>\<open>HTTPException\<close>s adds exactly one row to \<^verbatim>\<open>images\<close>, with no metadata link and with the
  detail string of the rejection as its error, and returns a failed item with the same
  string; an accepted call whose original is written to disk adds exactly one row,
  linked to the metadata row. An accepted call whose write to disk fails adds no row to
  \<^verbatim>\<open>images\<close> or \<^verbatim>\<open>stats\<close>, and when the \<^verbatim>\<open>unlink\<close> of the \<^verbatim>\<open>except\<close> branch succeeds it ends
  with the 500 ``Failed to save image''.
\<close>

theorem upload_attempt_recorded:
  "(validate H D (c_file c) = Inl (HTTPException code detail) \<and> fresh (c_uuid c) s \<longrightarrow>
      images (snd (upload_img H D c s)) = images s @
        [\<lparr>i_image_id = c_uuid c, i_original_name = py_or (filename (c_file c)) ''upload'',
          i_processed_at = c_now c, i_image_path = None, i_metadata_sha256 = None,
          i_error = Some detail\<rparr>] \<and>
      (\<exists>it. fst (upload_img H D c s) = Inr it \<and> r_status it = ''failed'' \<and>
         r_error it = Some detail \<and> r_metadata it = None)) \<and>
   (validate H D (c_file c) = Inr v \<and> c_write_ok c \<and> fresh (c_uuid c) s \<longrightarrow>
      images (snd (upload_img H D c s)) = images s @
        [\<lparr>i_image_id = c_uuid c, i_original_name = py_or (filename (c_file c)) ''upload'',
          i_processed_at = c_now c, i_image_path = Some (destination c),
          i_metadata_sha256 = Some (sha256 v), i_error = None\<rparr>] \<and>
      (\<exists>it. fst (upload_img H D c s) = Inr it \<and> r_status it = ''success'' \<and>
         r_error it = None)) \<and>
   (validate H D (c_file c) = Inr v \<and> \<not> c_write_ok c \<longrightarrow>
      images (snd (upload_img H D c s)) = images s \<and>
      stats (snd (upload_img H D c s)) = stats s \<and>
      (c_unlink_ok c \<longrightarrow>
         fst (upload_img H D c s) = Inl (HTTPException 500 ''Failed to save image'')))"
proof (intro conjI impI)
  assume w: "validate H D (c_file c) = Inr v \<and> \<not> c_write_ok c"
  show "images (snd (upload_img H D c s)) = images s"
    and "stats (snd (upload_img H D c s)) = stats s"
    using w by (simp_all add: upload_img_cases)
  show "fst (upload_img H D c s) = Inl (HTTPException 500 ''Failed to save image'')"
    if "c_unlink_ok c"
    using w that by (simp add: upload_img_write_failed)
qed (simp_all add: upload_img_accepted upload_img_rejected build_item_def Let_def)


lemma validate_upload_evil:
  "validate toy_digest (decoder_10x10 ''PNG'') (c_file upload_evil) =
     Inl (HTTPException 400 ''Bad Extension .xlsx'')"
  by (simp add: upload_evil_def make_call_def make_upload_def validate_unfold py_or_def
      get_ext_evil_xlsx ALLOWED_EXTENSIONS_def)

lemma validate_upload_unwritable:
  "validate toy_digest (decoder_10x10 ''PNG'') (c_file upload_unwritable) = Inr png_validated"
  by (simp add: upload_unwritable_def make_call_def png_validated_def validate_png_named
      get_ext_a_png)

theorem upload_attempt_recorded_witness:
  "images (snd (post upload_evil init)) =
     [\<lparr>i_image_id = ''id3'', i_original_name = ''evil.xlsx'', i_processed_at = 102,
       i_image_path = None, i_metadata_sha256 = None,
       i_error = Some ''Bad Extension .xlsx''\<rparr>] \<and>
   map i_image_id (images (snd (post upload_a init))) = [''id1''] \<and>
   images (snd (post upload_unwritable init)) = [] \<and>
   fst (post upload_unwritable init) = Inl (HTTPException 500 ''Failed to save image'')"
proof (intro conjI)
  have evil: "c_uuid upload_evil = ''id3''" "c_now upload_evil = 102"
    "py_or (filename (c_file upload_evil)) ''upload'' = ''evil.xlsx''"
    by (simp_all add: upload_evil_def make_call_def make_upload_def py_or_def)
  show "images (snd (post upload_evil init)) =
     [\<lparr>i_image_id = ''id3'', i_original_name = ''evil.xlsx'', i_processed_at = 102,
       i_image_path = None, i_metadata_sha256 = None,
       i_error = Some ''Bad Extension .xlsx''\<rparr>]"
    using upload_attempt_recorded
      [of toy_digest "decoder_10x10 ''PNG''" upload_evil 400 "''Bad Extension .xlsx''" init,
       THEN conjunct1]
      validate_upload_evil fresh_init [of "c_uuid upload_evil"]
    by (simp add: post_def evil) (simp add: init_def)
  have a: "c_uuid upload_a = ''id1''" "c_write_ok upload_a"
    by (simp_all add: upload_a_def make_call_def)
  show "map i_image_id (images (snd (post upload_a init))) = [''id1'']"
    using upload_attempt_recorded
      [of toy_digest "decoder_10x10 ''PNG''" upload_a _ _ init png_validated,
       THEN conjunct2, THEN conjunct1]
      validate_upload_a fresh_init [of "c_uuid upload_a"]
    by (simp add: post_def a) (simp add: init_def)
  have u: "\<not> c_write_ok upload_unwritable" "c_unlink_ok upload_unwritable"
    by (simp_all add: upload_unwritable_def make_call_def)
  note t = upload_attempt_recorded
      [of toy_digest "decoder_10x10 ''PNG''" upload_unwritable _ _ init png_validated,
       THEN conjunct2, THEN conjunct2, THEN mp, OF conjI, OF validate_upload_unwritable u(1)]
  show "images (snd (post upload_unwritable init)) = []"
    using t [THEN conjunct1] by (simp add: post_def init_def)
  show "fst (post upload_unwritable init) = Inl (HTTPException 500 ''Failed to save image'')"
    using t [THEN conjunct2, THEN conjunct2, THEN mp, OF u(2)] by (simp add: post_def)
qed

text \<open>
  Against C8 as stated: the PNG upload that passes validation, on a disk that cannot be
  written. The call raises the 500 and no UploadAttempt row and no ProcessingOutcome row
  exists afterwards.
\<close>

theorem storage_failure_leaves_no_attempt:
  "fst (post upload_unwritable init) = Inl (HTTPException 500 ''Failed to save image'') \<and>
   images (snd (post upload_unwritable init)) = [] \<and>
   stats (snd (post upload_unwritable init)) = []"
proof -
  have "\<not> c_write_ok upload_unwritable" "c_unlink_ok upload_unwritable"
    by (simp_all add: upload_unwritable_def make_call_def)
  then show ?thesis
    by (simp add: post_def upload_img_write_failed [OF validate_upload_unwritable] init_def)
qed


lemma caption_job_stats:
  "caption_job X t sha path i s = Some s2 \<Longrightarrow>
   stats s2 =
     map (\<lambda>r. if s_image_id r = i then r\<lparr>s_status := 1, s_end_time := Some t\<rparr> else r)
       (stats s)"
  by (auto simp: caption_job_def split: option.splits)




section \<open>Properties of the statistics\<close>

lemma round_half_even_nearest:
  assumes "0 < b"
  shows "\<bar>2 * (round_half_even a b * b - a)\<bar> \<le> b"
proof -
  have a: "a = (a div b) * b + a mod b"
    by simp
  have r: "0 \<le> a mod b" "a mod b < b"
    using assms by simp_all
  have up: "(a div b + 1) * b - a = b - a mod b"
    by (simp add: algebra_simps)
  have down: "(a div b) * b - a = - (a mod b)"
    using a by linarith
  show ?thesis
    unfolding round_half_even_def Let_def
    using r up down by (auto simp: abs_if)
qed

lemma success_rate_statuses:
  "success_rate (get_stats rows) =
     (if rows = [] then ''0.00%''
      else format_2f
             (float_mul (binary64 (length (filter (\<lambda>r. s_status r = 1) rows)) (length rows))
                100) @ ''%'')"
  by (simp add: get_stats_def Let_def)

lemma four_attempts_reached: "stats run_four = four_attempts"
proof -
  have a: "c_uuid upload_a = ''id1''" "c_write_ok upload_a" "c_now upload_a = 100"
    and b: "c_uuid upload_b = ''id2''" "c_write_ok upload_b" "c_now upload_b = 101"
    and e: "c_uuid upload_evil = ''id3''" "c_now upload_evil = 102"
    and j: "c_uuid upload_j = ''id4''" "c_write_ok upload_j" "c_now upload_j = 103"
    by (simp_all add: upload_a_def upload_b_def upload_evil_def upload_j_def make_call_def)
  have vj: "validate toy_digest (decoder_10x10 ''PNG'') (c_file upload_j) =
      Inr \<lparr>ext = ''.jpg'', mime = ''image/jpeg'', bytes = jpeg_payload,
           sha256 = toy_digest jpeg_payload, width = 10, height = 10, format = ''png''\<rparr>"
    by (simp add: upload_j_def make_call_def make_upload_def validate_unfold py_or_def
        lower_image_jpeg ALLOWED_EXTENSIONS_def ALLOWED_MIME_def match_signature_jpeg
        pil_validate_10x10 lower_PNG)
       (code_simp)
  define s1 where "s1 = snd (post upload_a init)"
  define s2 where "s2 = snd (post upload_b s1)"
  define s3 where "s3 = snd (post upload_evil s2)"
  define s4 where "s4 = snd (post upload_j s3)"
  have st: "stats init = []" "images init = []"
    by (simp_all add: init_def)
  have f1: "fresh (c_uuid upload_a) init"
    by (rule fresh_init)
  note u1 = upload_img_accepted [OF validate_upload_a a(2) f1]
  have t1: "stats s1 =
      [\<lparr>s_image_id = ''id1'', s_start_time = 100, s_end_time = None, s_status = 1\<rparr>]"
    and i1: "map i_image_id (images s1) = [''id1'']"
    and p1: "files s1 (destination upload_a) = Some png_payload"
    by (simp_all add: s1_def post_def u1 a st png_validated_def)
  have f2: "fresh (c_uuid upload_b) s1"
    using t1 i1 by (simp add: fresh_def b)
  note u2 = upload_img_accepted [OF validate_upload_b b(2) f2]
  have d: "destination upload_b \<noteq> destination upload_a"
    "destination upload_j \<noteq> destination upload_a"
    by (simp_all add: destination_def a b j)
  have t2: "stats s2 = stats s1 @
      [\<lparr>s_image_id = ''id2'', s_start_time = 101, s_end_time = None, s_status = 1\<rparr>]"
    and i2: "map i_image_id (images s2) = [''id1'', ''id2'']"
    and p2: "files s2 (destination upload_a) = Some png_payload"
    using i1 p1 d by (simp_all add: s2_def post_def u2 b)
  have f3: "fresh (c_uuid upload_evil) s2"
    using t1 t2 i2 by (simp add: fresh_def e)
  note u3 = upload_img_rejected [OF validate_upload_evil f3]
  have t3: "stats s3 = stats s2 @
      [\<lparr>s_image_id = ''id3'', s_start_time = 102, s_end_time = None, s_status = 0\<rparr>]"
    and i3: "map i_image_id (images s3) = [''id1'', ''id2'', ''id3'']"
    and p3: "files s3 (destination upload_a) = Some png_payload"
    using i2 p2 by (simp_all add: s3_def post_def u3 e)
  have f4: "fresh (c_uuid upload_j) s3"
    using t1 t2 t3 i3 by (simp add: fresh_def j)
  note u4 = upload_img_accepted [OF vj j(2) f4]
  have t4: "stats s4 = stats s3 @
      [\<lparr>s_image_id = ''id4'', s_start_time = 103, s_end_time = None, s_status = 1\<rparr>]"
    and p4: "files s4 (destination upload_a) = Some png_payload"
      "files s4 (destination upload_j) = Some jpeg_payload"
    using p3 d by (simp_all add: s4_def post_def u4 j)
  obtain s5 where c5: "caption_job caption_double 104 (toy_digest png_payload)
      (destination upload_a) ''id1'' s4 = Some s5"
    by (simp add: caption_job_def read_original_def caption_double_def p4)
  obtain s6 where c6: "caption_job caption_double 108 (toy_digest jpeg_payload)
      (destination upload_j) ''id4'' s5 = Some s6"
    using c5 p4
    by (auto simp: caption_job_def read_original_def caption_double_def split: option.splits)
  have "stats s6 = four_attempts"
    by (simp add: caption_job_stats [OF c6] caption_job_stats [OF c5] t4 t3 t2 t1
        four_attempts_def)
  moreover have "run_four = s6"
    by (simp add: run_four_def Let_def s1_def [symmetric] s2_def [symmetric]
        s3_def [symmetric] s4_def [symmetric] c5 c6)
  ultimately show ?thesis
    by simp
qed

lemma average_completed_only:
  "average_processing_time_seconds (get_stats rows) =
     (let done = filter (\<lambda>r. s_end_time r \<noteq> None) rows
      in if done = [] then 0
         else round_half_even (\<Sum>r\<leftarrow>done. the (s_end_time r) - s_start_time r)
                (int (length done)))"
  by (simp add: get_stats_def Let_def)

lemma format_2f_shape:
  "\<exists>ip d1 d2. format_2f x = ip @ [CHR ''.'', d1, d2] \<and> ip \<noteq> []"
proof -
  have "decimal n \<noteq> []" for n
    by (subst decimal.simps) simp
  then show ?thesis
    by (simp add: format_2f_def Let_def)
qed

text \<open>
  C2, as the code has it. \<open>total\<close> is the number of rows and \<open>failed\<close> the number of rows
  with status 0. The success rate is the number of rows with status 1 over the number
  of all rows, as a percentage with two decimals and \<^verbatim>\<open>0.00%\<close> for an empty table: every
  row counts, whether its end time is set or not, so an accepted attempt that is still
  unprocessed counts as a success. The average is taken over the rows with an end time
  only, rounded to an integer, and is 0 when there is none.
\<close>

theorem stats_report_computed:
  "total (get_stats rows) = length rows \<and>
   failed (get_stats rows) = length (filter (\<lambda>r. s_status r = 0) rows) \<and>
   success_rate (get_stats []) = ''0.00%'' \<and>
   (rows \<noteq> [] \<longrightarrow>
      success_rate (get_stats rows) =
        format_2f
          (float_mul (binary64 (length (filter (\<lambda>r. s_status r = 1) rows)) (length rows))
             100) @ ''%'') \<and>
   (\<exists>ip d1 d2. success_rate (get_stats rows) = ip @ [CHR ''.'', d1, d2, CHR ''%'']) \<and>
   success_rate (get_stats (map (\<lambda>r. r\<lparr>s_end_time := e r\<rparr>) rows)) =
     success_rate (get_stats rows) \<and>
   average_processing_time_seconds (get_stats rows) =
     average_processing_time_seconds (get_stats (filter (\<lambda>r. s_end_time r \<noteq> None) rows)) \<and>
   ((\<forall>r \<in> set rows. s_end_time r = None) \<longrightarrow>
      average_processing_time_seconds (get_stats rows) = 0) \<and>
   ((\<exists>r \<in> set rows. s_end_time r \<noteq> None) \<longrightarrow>
      average_processing_time_seconds (get_stats rows) =
        round_half_even
          (\<Sum>r\<leftarrow>filter (\<lambda>r. s_end_time r \<noteq> None) rows. the (s_end_time r) - s_start_time r)
          (int (length (filter (\<lambda>r. s_end_time r \<noteq> None) rows))))"
proof (intro conjI impI)
  show "\<exists>ip d1 d2. success_rate (get_stats rows) = ip @ [CHR ''.'', d1, d2, CHR ''%'']"
  proof (cases "rows = []")
    case True
    then have "success_rate (get_stats rows) =
        ''0'' @ [CHR ''.'', CHR ''0'', CHR ''0'', CHR ''%'']"
      by (simp add: success_rate_statuses)
    then show ?thesis
      by blast
  next
    case False
    obtain ip d1 d2 where
      "format_2f
         (float_mul (binary64 (length (filter (\<lambda>r. s_status r = 1) rows)) (length rows))
            100) =
         ip @ [CHR ''.'', d1, d2]"
      using format_2f_shape by blast
    with False show ?thesis
      by (simp add: success_rate_statuses)
  qed
  have same: "filter (\<lambda>r. s_status r = 1) (map (\<lambda>r. r\<lparr>s_end_time := e r\<rparr>) rows) =
      map (\<lambda>r. r\<lparr>s_end_time := e r\<rparr>) (filter (\<lambda>r. s_status r = 1) rows)"
    by (induction rows) simp_all
  show "success_rate (get_stats (map (\<lambda>r. r\<lparr>s_end_time := e r\<rparr>) rows)) =
     success_rate (get_stats rows)"
    unfolding success_rate_statuses same by simp
  show "average_processing_time_seconds (get_stats rows) = 0"
    if "\<forall>r \<in> set rows. s_end_time r = None"
  proof -
    have "filter (\<lambda>r. s_end_time r \<noteq> None) rows = []"
      using that by (simp add: filter_empty_conv)
    then show ?thesis
      by (simp add: average_completed_only)
  qed
  show "average_processing_time_seconds (get_stats rows) =
        round_half_even
          (\<Sum>r\<leftarrow>filter (\<lambda>r. s_end_time r \<noteq> None) rows. the (s_end_time r) - s_start_time r)
          (int (length (filter (\<lambda>r. s_end_time r \<noteq> None) rows)))"
    if "\<exists>r \<in> set rows. s_end_time r \<noteq> None"
  proof -
    have "filter (\<lambda>r. s_end_time r \<noteq> None) rows \<noteq> []"
      using that by (simp add: filter_empty_conv)
    then show ?thesis
      by (simp add: average_completed_only Let_def)
  qed
qed (simp_all add: get_stats_def Let_def)

text \<open>
  Sample values of the floating-point model: one tenth and one third are the binary64
  numbers \<^verbatim>\<open>0x1.999999999999ap-4\<close> and \<^verbatim>\<open>0x1.5555555555555p-2\<close>; three of four is
  \<^verbatim>\<open>75.00\<close>; and 23 of 160, whose exact percentage 14.375 is a tie, is \<^verbatim>\<open>14.37\<close>, because
  the product the source formats is the \<^verbatim>\<open>float\<close> \<^verbatim>\<open>14.374999999999998\<close>.
\<close>

lemma binary64_tenth: "binary64 1 10 = (0x1999999999999A, 2 ^ 56)"
  by (simp add: binary64_def floor_log2_def ge_pow2_def bit_length.simps
      round_half_even_def Let_def)

lemma binary64_third: "binary64 1 3 = (0x15555555555555, 2 ^ 54)"
  by (simp add: binary64_def floor_log2_def ge_pow2_def bit_length.simps
      round_half_even_def Let_def)

lemma format_75: "format_2f (float_mul (binary64 3 4) 100) = ''75.00''"
  by (simp add: format_2f_def float_mul_def binary64_def floor_log2_def ge_pow2_def
      bit_length.simps round_half_even_def Let_def decimal.simps digit_char_def)

lemma format_23_of_160: "format_2f (float_mul (binary64 23 160) 100) = ''14.37''"
  by (simp add: format_2f_def float_mul_def binary64_def floor_log2_def ge_pow2_def
      bit_length.simps round_half_even_def Let_def decimal.simps digit_char_def)

text \<open>
  On the table that the run of four uploads leaves (two attempts completed with
  success, one failed, one accepted and still unprocessed): four rows, one failed,
  three of four successful, and the two durations of 4 and 5 seconds averaged to 4.
\<close>

theorem stats_report_computed_witness:
  "total (get_stats four_attempts) = 4 \<and>
   failed (get_stats four_attempts) = 1 \<and>
   success_rate (get_stats four_attempts) = ''75.00%'' \<and>
   average_processing_time_seconds (get_stats four_attempts) = 4"
proof -
  note t = stats_report_computed [of four_attempts]
  have ne: "four_attempts \<noteq> []"
    and n: "length four_attempts = 4"
    and f: "length (filter (\<lambda>r. s_status r = 0) four_attempts) = 1"
    and s: "length (filter (\<lambda>r. s_status r = 1) four_attempts) = 3"
    and d: "filter (\<lambda>r. s_end_time r \<noteq> None) four_attempts =
        [\<lparr>s_image_id = ''id1'', s_start_time = 100, s_end_time = Some 104, s_status = 1\<rparr>,
         \<lparr>s_image_id = ''id4'', s_start_time = 103, s_end_time = Some 108, s_status = 1\<rparr>]"
    by (simp_all add: four_attempts_def)
  have ex: "\<exists>r \<in> set four_attempts. s_end_time r \<noteq> None"
    by (simp add: four_attempts_def)
  have r: "round_half_even 9 2 = 4"
    by (simp add: round_half_even_def Let_def)
  have "total (get_stats four_attempts) = 4"
    using t [THEN conjunct1] n by simp
  moreover have "failed (get_stats four_attempts) = 1"
    using t [THEN conjunct2, THEN conjunct1] f by simp
  moreover have "success_rate (get_stats four_attempts) = ''75.00%''"
    using t [THEN conjunct2, THEN conjunct2, THEN conjunct2, THEN conjunct1] ne n s format_75
    by simp
  moreover have "average_processing_time_seconds (get_stats four_attempts) = 4"
    using t [THEN conjunct2, THEN conjunct2, THEN conjunct2, THEN conjunct2, THEN conjunct2,
        THEN conjunct2, THEN conjunct2, THEN conjunct2, THEN mp, OF ex]
    unfolding d by (simp add: r)
  ultimately show ?thesis
    by (intro conjI)
qed

text \<open>
  Against C2 as stated: for three completed attempts, two of them successful and one
  failed, and one attempt still pending, the report says \<^verbatim>\<open>75.00%\<close> and not \<^verbatim>\<open>50.00%\<close>,
  because the pending row carries status 1 like the successful ones.
\<close>

theorem pending_counts_as_success:
  "total (get_stats four_attempts) = 4 \<and>
   failed (get_stats four_attempts) = 1 \<and>
   success_rate (get_stats four_attempts) = ''75.00%'' \<and>
   success_rate (get_stats four_attempts) \<noteq> ''50.00%''"
proof -
  have n: "length four_attempts = 4"
    and f: "length (filter (\<lambda>r. s_status r = 0) four_attempts) = 1"
    and s: "length (filter (\<lambda>r. s_status r = 1) four_attempts) = 3"
    and ne: "four_attempts \<noteq> []"
    by (simp_all add: four_attempts_def)
  have "total (get_stats four_attempts) = 4"
    and "failed (get_stats four_attempts) = 1"
    by (simp_all add: get_stats_def Let_def n f)
  moreover have "success_rate (get_stats four_attempts) = ''75.00%''"
    by (simp add: success_rate_statuses ne n s format_75)
  ultimately show ?thesis
    by simp
qed

section \<open>Exceptions the handlers do not name\<close>

text \<open>
  A decoder exception that is neither an \<^verbatim>\<open>UnidentifiedImageError\<close> nor an \<^verbatim>\<open>OSError\<close>,
  raised by \<^verbatim>\<open>Image.open\<close> or by \<^verbatim>\<open>verify()\<close>: no \<^verbatim>\<open>except\<close> clause of \<^verbatim>\<open>pil_validate\<close> matches
  it, \<^verbatim>\<open>validate\<close> lets it through, and \<^verbatim>\<open>upload_img\<close>, which catches \<^verbatim>\<open>HTTPException\<close> only,
  ends with it and leaves the ledger as it was: no row records the call.
\<close>

lemma other_decoder_exception_passes_through:
  assumes "get_ext (py_or (filename (c_file c)) '''') \<in> ALLOWED_EXTENSIONS"
    and "lower (py_or (content_type (c_file c)) '''') \<in> ALLOWED_MIME"
    and "content (c_file c) \<noteq> []"
    and "match_signature (lower (py_or (content_type (c_file c)) '''')) (content (c_file c))"
    and "D (content (c_file c)) = Inl e \<or>
         (\<exists>img w h. D (content (c_file c)) = Inr img \<and> img_size img = (w, h) \<and>
            w * h \<le> 50000000 \<and> img_verify img = Some e)"
    and "\<not> named_error e"
  shows "validate H D (c_file c) = Inl (Uncaught e)"
    and "upload_img H D c s = (Inl (Uncaught e), s)"
proof -
  have "pil_validate D (content (c_file c)) 50000000 = Inl (Uncaught e)"
    using assms(5,6) by (auto simp: pil_validate_def pil_handler_uncaught)
  then show v: "validate H D (c_file c) = Inl (Uncaught e)"
    using assms(1-4) by (simp add: validate_unfold)
  show "upload_img H D c s = (Inl (Uncaught e), s)"
    by (simp add: upload_img_cases v)
qed

text \<open>
  The PNG with the wrong checksum, uploaded on a new database: the call ends with the
  \<^verbatim>\<open>SyntaxError\<close> and no table has a row. The upload whose write and whose cleanup both
  fail ends with the \<^verbatim>\<open>OSError\<close> of \<^verbatim>\<open>unlink\<close>, not with the 500, and no table has a row
  either.
\<close>

lemma broken_png_upload_unrecorded:
  "upload_img toy_digest decoder_bad_checksum
     (make_call (make_upload ''broken.png'' png_payload ''image/png'') ''id5'' 104 True) init =
     (Inl (Uncaught SyntaxError), init)"
proof -
  have "validate toy_digest decoder_bad_checksum
      (make_upload ''broken.png'' png_payload ''image/png'') = Inl (Uncaught SyntaxError)"
    by (simp add: validate_unfold make_upload_def py_or_def get_ext_broken_png lower_image_png
        ALLOWED_EXTENSIONS_def ALLOWED_MIME_def png_payload_def match_signature_png
        pil_validate_def decoder_bad_checksum_def pil_handler_def)
  then show ?thesis
    by (simp add: upload_img_cases make_call_def)
qed

lemma stuck_upload_unrecorded:
  "post upload_stuck init = (Inl (Uncaught OSError), init)"
proof -
  have c: "c_file upload_stuck = c_file upload_unwritable"
    "\<not> c_write_ok upload_stuck" "\<not> c_unlink_ok upload_stuck"
    by (simp_all add: upload_stuck_def upload_unwritable_def make_call_def)
  have "validate toy_digest (decoder_10x10 ''PNG'') (c_file upload_stuck) = Inr png_validated"
    by (simp add: c validate_upload_unwritable)
  then show ?thesis
    unfolding post_def using c(2,3) by (rule upload_img_unlink_failed)
qed

end
